theory Spec2Isabelle
  imports Complex_Main "HOL-Library.Log_Nat"
begin

section \<open>Shared data: dates, table rows, exceptions\<close>

text \<open>
  A calendar date is its proleptic Gregorian ordinal (Python's \<open>date.toordinal()\<close>):
  consecutive days are consecutive integers and ordinal 1 is a Monday, so the weekday
  (Monday = 0, ..., Sunday = 6) is \<open>(d + 6) mod 7\<close>. A Python float is the real
  number it denotes. The cost totals are accumulated exactly; the dashboard's lead-time
  computation, whose result is truncated to an integer, is carried out in binary64
  arithmetic (see \<open>double_round\<close>).
\<close>

type_synonym date = int

definition weekday :: "date \<Rightarrow> int" where
  "weekday d = (d + 6) mod 7"

datatype exn =
    ValueError string
  | KeyError string
  | IndexError string
  | OrderFailedError string

text \<open>A row of the suppliers table and a row of the inventory policy table.\<close>

record supplier_row =
  supplier_id :: string
  products :: string
  lead_time :: int
  MOQ :: int
  reliability :: real
  cost :: real

record policy_row =
  policy_product_id :: string
  policy_supplier_id :: string
  eoq :: int
  reorder_point :: int
  safety_stock :: int
  unit_cost :: real

text \<open>Python's \<open>int(x)\<close> on a float truncates towards zero.\<close>

definition py_int :: "real \<Rightarrow> int" where
  "py_int x = (if 0 \<le> x then \<lfloor>x\<rfloor> else \<lceil>x\<rceil>)"

text \<open>
  Python's \<open>round(x, 2)\<close>, on exact values: to the nearest multiple of 1/100, a tie
  going to the even neighbour.
\<close>

definition round2 :: "real \<Rightarrow> real" where
  "round2 x =
     (let y = x * 100; f = \<lfloor>y\<rfloor>; r = y - of_int f
      in (if r < 1 / 2 then of_int f
          else if 1 / 2 < r then of_int (f + 1)
          else if even f then of_int f else of_int (f + 1)) / 100)"

subsection \<open>Binary64 arithmetic\<close>

text \<open>
  A float operation of Python returns the exact result rounded to the nearest binary64
  number, a tie going to the even significand. \<open>binade a\<close> is the exponent
  \<open>e\<close> with \<open>2^e \<le> a < 2^(e+1)\<close> for \<open>a > 0\<close>; the spacing of the binary64
  numbers there is \<open>2^(e - 52)\<close>, and \<open>2^(-1074)\<close> in the subnormal range.
  Overflow to infinity (results of magnitude \<open>2^1024\<close> and more) and NaN are not
  values of the model.
\<close>

definition round_half_even :: "real \<Rightarrow> int" where
  "round_half_even q =
     (let f = \<lfloor>q\<rfloor>; r = q - of_int f
      in if r < 1 / 2 then f else if 1 / 2 < r then f + 1 else if even f then f else f + 1)"

definition pow2 :: "int \<Rightarrow> real" where
  "pow2 e = (if 0 \<le> e then 2 ^ nat e else 1 / 2 ^ nat (- e))"

definition binade :: "real \<Rightarrow> int" where
  "binade a =
     (if 1 \<le> a then int (floorlog 2 (nat \<lfloor>a\<rfloor>)) - 1
      else - int (floorlog 2 (nat \<lceil>1 / a\<rceil> - 1)))"

definition double_round :: "real \<Rightarrow> real" where
  "double_round x =
     (if x = 0 then 0
      else
        (let a = \<bar>x\<bar>;
             u = pow2 (max (binade a - 52) (- 1074))
         in sgn x * (of_int (round_half_even (a / u)) * u)))"

definition fadd :: "real \<Rightarrow> real \<Rightarrow> real" where
  "fadd x y = double_round (x + y)"

definition fsub :: "real \<Rightarrow> real \<Rightarrow> real" where
  "fsub x y = double_round (x - y)"

definition fmul :: "real \<Rightarrow> real \<Rightarrow> real" where
  "fmul x y = double_round (x * y)"

definition fdiv :: "real \<Rightarrow> real \<Rightarrow> real" where
  "fdiv x y = double_round (x / y)"

section \<open>The module-global random generator\<close>

text \<open>
  \<open>order_manager.py\<close> calls \<open>random.random()\<close>, the generator of Python's
  \<open>random\<close> module, which is process-global state. The model makes that state
  explicit: the sequence of values the generator will return, and how many have been
  drawn so far.
\<close>

record random_state =
  draws :: "nat \<Rightarrow> real"
  calls :: nat

definition random_random :: "random_state \<Rightarrow> real \<times> random_state" where
  "random_random g = (draws g (calls g), g\<lparr>calls := calls g + 1\<rparr>)"

section \<open>what\_if\_simulator/order\_manager.py\<close>

text \<open>
  \<open>order_date + BusinessDay(n)\<close> of pandas, for a date without a time of day:
  \<open>adjust_ndays\<close> is the library's day adjustment after whole weeks are taken out
  (\<open>weeks = n // 5\<close>).
\<close>

definition adjust_ndays :: "int \<Rightarrow> int \<Rightarrow> int \<Rightarrow> int" where
  "adjust_ndays n0 wday weeks =
     (let n1 = (if n0 \<le> 0 \<and> 4 < wday then n0 + 1 else n0);
          n = n1 - 5 * weeks
      in if n = 0 \<and> 4 < wday then 4 - wday
         else if 4 < wday then (7 - wday) + (n - 1)
         else if wday + n \<le> 4 then n
         else n + 2)"

definition BusinessDay_add :: "date \<Rightarrow> int \<Rightarrow> date" where
  "BusinessDay_add other n =
     (let wday = weekday other; weeks = n div 5
      in other + (7 * weeks + adjust_ndays n wday weeks))"

record pending_order =
  arrival_date :: date
  quantity :: int
  status :: string

record OrderManager =
  om_lead_time :: int
  moq :: int
  om_reliability :: real
  pending_orders :: "pending_order list"
  override_supplier_id :: "string option"

definition OrderManager_init :: "supplier_row \<Rightarrow> string option \<Rightarrow> OrderManager" where
  "OrderManager_init supplier_data override =
     \<lparr>om_lead_time = lead_time supplier_data,
      moq = MOQ supplier_data,
      om_reliability = reliability supplier_data,
      pending_orders = [],
      override_supplier_id = override\<rparr>"

definition calculate_arrival :: "OrderManager \<Rightarrow> date \<Rightarrow> date" where
  "calculate_arrival om order_date = BusinessDay_add order_date (om_lead_time om)"

text \<open>
  \<open>place_order\<close> draws once from the global generator; \<open>Inl\<close> is the raised
  \<open>OrderFailedError\<close>, \<open>Inr\<close> the manager with the new order appended.
\<close>

definition place_order ::
  "OrderManager \<Rightarrow> date \<Rightarrow> int \<Rightarrow> random_state \<Rightarrow> (exn + OrderManager) \<times> random_state" where
  "place_order om order_date needed_qty g =
     (let (r, g') = random_random g
      in if om_reliability om < r
         then (Inl (OrderFailedError ''Supplier reliability check failed''), g')
         else
           (let order_qty = max needed_qty (moq om);
                arrival = calculate_arrival om order_date
            in (Inr (om\<lparr>pending_orders := pending_orders om @
                      [\<lparr>arrival_date = arrival, quantity = order_qty,
                        status = ''pending''\<rparr>]\<rparr>), g')))"

definition get_pending_orders :: "OrderManager \<Rightarrow> pending_order list" where
  "get_pending_orders om = pending_orders om"

section \<open>what\_if\_simulator/core.py\<close>

subsection \<open>CostCalculator\<close>

record CostCalculator =
  holding_rate :: real
  order_cost :: real
  stockout_penalty :: real
  total_holding :: real
  total_ordering :: real
  total_stockout :: real

text \<open>
  The constructor takes \<open>holding_rate\<close> and does not use it: the attribute is set
  to the literal \<open>0.20\<close>.
\<close>

definition CostCalculator_init :: "real \<Rightarrow> real \<Rightarrow> real \<Rightarrow> CostCalculator" where
  "CostCalculator_init holding_rate_arg order_cost_arg stockout_penalty_arg =
     \<lparr>holding_rate = 0.20,
      order_cost = order_cost_arg,
      stockout_penalty = stockout_penalty_arg,
      total_holding = 0,
      total_ordering = 0,
      total_stockout = 0\<rparr>"

definition update_costs :: "CostCalculator \<Rightarrow> int \<Rightarrow> int \<Rightarrow> CostCalculator" where
  "update_costs cc closing_stock stockout_qty =
     cc\<lparr>total_holding := total_holding cc + of_int closing_stock * holding_rate cc,
        total_stockout := total_stockout cc + of_int stockout_qty * stockout_penalty cc\<rparr>"

definition add_order_cost :: "CostCalculator \<Rightarrow> CostCalculator" where
  "add_order_cost cc = cc\<lparr>total_ordering := total_ordering cc + order_cost cc\<rparr>"

definition set_holding_rate :: "CostCalculator \<Rightarrow> real \<Rightarrow> CostCalculator" where
  "set_holding_rate cc rate = cc\<lparr>holding_rate := rate\<rparr>"

subsection \<open>InventorySimulator\<close>

text \<open>
  \<open>product_data\<close> is what \<open>DataLoader.load_product_data\<close> returned: the product's
  supplier and policy rows, its forecast rows (date, predicted units) and its ledger
  rows (date, opening stock), in file order. \<open>all_suppliers\<close> is what
  \<open>DataLoader.load_all_suppliers\<close> returns. \<open>current_stock\<close> does not exist before
  \<open>_init_stock_state\<close> assigns it; the model starts it at 0.
\<close>

record product_data_rec =
  pd_supplier :: supplier_row
  pd_policy :: policy_row
  pd_forecast :: "(date \<times> int) list"
  pd_ledger :: "(date \<times> int) list"

record InventorySimulator =
  product_id :: string
  all_suppliers :: "supplier_row list"
  product_data :: product_data_rec
  order_mgr :: OrderManager
  rop :: int
  sim_eoq :: int
  cost_calc :: CostCalculator
  current_stock :: int

definition InventorySimulator_init ::
  "string \<Rightarrow> product_data_rec \<Rightarrow> supplier_row list \<Rightarrow> real option \<Rightarrow> string option
     \<Rightarrow> InventorySimulator" where
  "InventorySimulator_init pid pd suppliers holding_rate_opt force_supplier_id =
     (let supplier = pd_supplier pd;
          policy = pd_policy pd;
          estimated_order_cost = 0.1 * of_int (MOQ supplier) * cost supplier;
          annual_rate = (case holding_rate_opt of Some h \<Rightarrow> h | None \<Rightarrow> 0.25);
          holding_cost_per_unit = unit_cost policy * annual_rate
      in \<lparr>product_id = pid,
          all_suppliers = suppliers,
          product_data = pd,
          order_mgr = OrderManager_init supplier force_supplier_id,
          rop = reorder_point policy + safety_stock policy,
          sim_eoq = eoq policy,
          cost_calc = CostCalculator_init (holding_cost_per_unit / 365)
                        estimated_order_cost 5.0,
          current_stock = 0\<rparr>)"

text \<open>\<open>utils.validate_date_range\<close> (the second definition in the module, which is
  the one in force).\<close>

definition validate_date_range :: "(date \<times> int) list \<Rightarrow> date \<Rightarrow> date \<Rightarrow> exn + unit" where
  "validate_date_range forecast_df start_date end_date =
     (if forecast_df = [] then Inl (ValueError ''Invalid forecast data provided.'')
      else
        (let min_forecast_date = Min (set (map fst forecast_df));
             max_forecast_date = Max (set (map fst forecast_df))
         in if start_date < min_forecast_date \<or> max_forecast_date < end_date
            then Inl (ValueError ''Simulation range is outside forecast range'')
            else Inr ()))"

definition override_supplier :: "InventorySimulator \<Rightarrow> string \<Rightarrow> exn + InventorySimulator" where
  "override_supplier s sid =
     (case filter (\<lambda>r. supplier_id r = sid) (all_suppliers s) of
        [] \<Rightarrow> Inl (ValueError ''Supplier ID not found.'')
      | m # _ \<Rightarrow> Inr (s\<lparr>order_mgr := OrderManager_init m None\<rparr>))"

definition init_stock_state :: "InventorySimulator \<Rightarrow> date \<Rightarrow> exn + InventorySimulator" where
  "init_stock_state s start_date =
     (case filter (\<lambda>row. fst row = start_date) (pd_ledger (product_data s)) of
        [] \<Rightarrow> Inl (ValueError ''No inventory data for start date'')
      | opening_row # _ \<Rightarrow> Inr (s\<lparr>current_stock := snd opening_row\<rparr>))"

definition process_order_arrivals :: "InventorySimulator \<Rightarrow> date \<Rightarrow> InventorySimulator" where
  "process_order_arrivals s current_date =
     s\<lparr>current_stock :=
         foldl (\<lambda>stock ord. if arrival_date ord = current_date then stock + quantity ord
                             else stock)
           (current_stock s) (get_pending_orders (order_mgr s))\<rparr>"

text \<open>
  The \<open>modifications\<close> dictionary is a map; \<open>None\<close> and the empty dictionary
  (both falsy) are the empty map.
\<close>

definition get_daily_demand ::
  "InventorySimulator \<Rightarrow> date \<Rightarrow> (date \<rightharpoonup> int) \<Rightarrow> exn + int" where
  "get_daily_demand s d modifications =
     (case modifications d of
        Some v \<Rightarrow> Inr v
      | None \<Rightarrow>
          (case filter (\<lambda>row. fst row = d) (pd_forecast (product_data s)) of
             [] \<Rightarrow> Inl (ValueError ''No forecast available for date'')
           | day_match # _ \<Rightarrow> Inr (snd day_match)))"

definition update_inventory :: "InventorySimulator \<Rightarrow> int \<Rightarrow> int \<times> InventorySimulator" where
  "update_inventory s demand =
     (let stock1 = current_stock s - demand;
          stockout = max (- stock1) 0
      in (stockout, s\<lparr>current_stock := max stock1 0\<rparr>))"

definition check_reorder_point ::
  "InventorySimulator \<Rightarrow> date \<Rightarrow> random_state \<Rightarrow> InventorySimulator \<times> random_state" where
  "check_reorder_point s d g =
     (if current_stock s \<le> rop s \<and> get_pending_orders (order_mgr s) = []
      then (case place_order (order_mgr s) d (sim_eoq s) g of
              (Inr om', g') \<Rightarrow>
                (s\<lparr>order_mgr := om', cost_calc := add_order_cost (cost_calc s)\<rparr>, g')
            | (Inl e, g') \<Rightarrow> (s, g'))
      else (s, g))"

record daily_result =
  rec_date :: date
  rec_demand :: int
  rec_stockout :: int
  rec_inventory :: int
  rec_pending_orders :: nat

definition record_daily_result :: "InventorySimulator \<Rightarrow> date \<Rightarrow> int \<Rightarrow> int \<Rightarrow> daily_result" where
  "record_daily_result s d demand stockout =
     \<lparr>rec_date = d, rec_demand = demand, rec_stockout = stockout,
      rec_inventory = current_stock s,
      rec_pending_orders = length (get_pending_orders (order_mgr s))\<rparr>"

record metrics_rec =
  total_holding_cost :: real
  total_stockout_cost :: real
  total_ordering_cost :: real
  stockout_days :: nat

record sim_result =
  timeline :: "daily_result list"
  metrics :: metrics_rec

text \<open>
  \<open>_compile_results\<close>: a frame built from no records has no \<open>date\<close> column, and
  \<open>set_index('date')\<close> raises \<open>KeyError\<close>.
\<close>

definition compile_results :: "InventorySimulator \<Rightarrow> daily_result list \<Rightarrow> exn + sim_result" where
  "compile_results s daily_records =
     (if daily_records = [] then Inl (KeyError ''date'')
      else Inr \<lparr>timeline = daily_records,
                metrics =
                  \<lparr>total_holding_cost = round2 (total_holding (cost_calc s)),
                   total_stockout_cost = round2 (total_stockout (cost_calc s)),
                   total_ordering_cost = round2 (total_ordering (cost_calc s)),
                   stockout_days = length (filter (\<lambda>r. 0 < rec_stockout r) daily_records)\<rparr>\<rparr>)"

text \<open>
  One pass of the body of the day loop of \<open>run\<close>: the state after the day and the
  day's record, or the exception raised by the demand lookup (with the state and the
  generator as they were when it was raised).
\<close>

definition run_day ::
  "(date \<rightharpoonup> int) \<Rightarrow> date \<Rightarrow> InventorySimulator \<times> random_state
     \<Rightarrow> (exn + daily_result) \<times> InventorySimulator \<times> random_state" where
  "run_day modifications d sg =
     (let s1 = process_order_arrivals (fst sg) d
      in case get_daily_demand s1 d modifications of
           Inl e \<Rightarrow> (Inl e, s1, snd sg)
         | Inr demand \<Rightarrow>
             (let (stockout_qty, s2) = update_inventory s1 demand;
                  (s3, g') = check_reorder_point s2 d (snd sg);
                  s4 = s3\<lparr>cost_calc := update_costs (cost_calc s3) (current_stock s3) stockout_qty\<rparr>
              in (Inr (record_daily_result s4 d demand stockout_qty), s4, g')))"

fun run_loop ::
  "(date \<rightharpoonup> int) \<Rightarrow> date list \<Rightarrow> daily_result list \<Rightarrow> InventorySimulator \<times> random_state
     \<Rightarrow> (exn + daily_result list) \<times> InventorySimulator \<times> random_state" where
  "run_loop modifications [] results sg = (Inr results, sg)"
| "run_loop modifications (d # ds) results sg =
     (case run_day modifications d sg of
        (Inl e, sg') \<Rightarrow> (Inl e, sg')
      | (Inr r, sg') \<Rightarrow> run_loop modifications ds (results @ [r]) sg')"

text \<open>
  \<open>InventorySimulator.run\<close>. The result is the returned dictionary or the exception
  that left \<open>run\<close>, together with the simulator object and the generator as the call
  left them. \<open>pd.date_range(start_date, end_date)\<close> is every day from the first to
  the last, none when the first is after the last. The parameter \<open>enable_risk\<close> is
  never read.
\<close>

definition run ::
  "InventorySimulator \<Rightarrow> date \<Rightarrow> date \<Rightarrow> (date \<rightharpoonup> int) \<Rightarrow> real option \<Rightarrow> string option
     \<Rightarrow> random_state \<Rightarrow> (exn + sim_result) \<times> InventorySimulator \<times> random_state" where
  "run s0 start_date end_date demand_modifications holding_rate_opt force_supplier_id g =
     (let s1 = (case holding_rate_opt of
                  None \<Rightarrow> s0
                | Some h \<Rightarrow>
                    s0\<lparr>cost_calc := (cost_calc s0)
                         \<lparr>holding_rate := unit_cost (pd_policy (product_data s0)) * h / 365\<rparr>\<rparr>)
      in case (case force_supplier_id of None \<Rightarrow> Inr s1
                                        | Some sid \<Rightarrow> override_supplier s1 sid) of
           Inl e \<Rightarrow> (Inl e, s1, g)
         | Inr s2 \<Rightarrow>
             (case validate_date_range (pd_forecast (product_data s2)) start_date end_date of
                Inl e \<Rightarrow> (Inl e, s2, g)
              | Inr _ \<Rightarrow>
                  (case init_stock_state s2 start_date of
                     Inl e \<Rightarrow> (Inl e, s2, g)
                   | Inr s3 \<Rightarrow>
                       (case run_loop demand_modifications [start_date..end_date] [] (s3, g) of
                          (Inl e, sg) \<Rightarrow> (Inl e, sg)
                        | (Inr results, s4, g') \<Rightarrow> (compile_results s4 results, s4, g')))))"

section \<open>sim.py: the dashboard's simulator\<close>

record forecast_row =
  f_date :: date
  f_product_id :: string
  predicted_units :: int

record data_loader =
  policies :: "policy_row list"
  suppliers :: "supplier_row list"
  forecast :: "forecast_row list"

text \<open>The \<open>scenario_params\<close> dictionary: each key may be absent.\<close>

record scenario_params =
  sp_supplier_id :: "string option"
  sp_eoq :: "int option"
  sp_reorder_point :: "int option"
  sp_safety_stock :: "int option"
  sp_buffer_days :: "int option"

record ledger_row =
  row_date :: date
  opening_stock :: int
  row_demand :: int
  sold :: int
  unmet_demand :: int
  closing_stock :: int
  restock_qty :: int
  holding_cost :: real
  ordering_cost :: int
  row_supplier :: string

definition HOLDING_RATE_DAILY :: real where
  "HOLDING_RATE_DAILY = 0.20 / 365"

definition ORDER_COST :: int where
  "ORDER_COST = 500"

text \<open>The fixed first day of the dashboard's simulation, 2025-04-01 (a Tuesday).\<close>

definition sim_start_date :: date where
  "sim_start_date = 739342"

text \<open>\<open>_adjusted_lead_time\<close>: three float operations and an integer times a
  float, then \<open>int\<close>.\<close>

definition adjusted_lead_time :: "supplier_row \<Rightarrow> int" where
  "adjusted_lead_time supplier =
     (let lt = lead_time supplier;
          reliability_factor = fdiv (fsub 100 (reliability supplier)) 100
      in py_int (fmul (of_int lt) (fadd 1 reliability_factor)))"

text \<open>
  \<open>_calculate_initial_stock\<close>. The safety term
  \<open>np.ceil(1.65 * std * np.sqrt(adjusted_lt + buffer_days))\<close> is floating-point
  statistics of the forecast. Where it is a number it is the parameter
  \<open>safety_term\<close>, a function of the forecast, the adjusted lead time and the buffer
  days. It is NaN when the forecast has fewer than two rows (the sample standard
  deviation is NaN) or \<open>adjusted_lt + buffer_days\<close> is negative (the square root
  is NaN); then \<open>int\<close> of the NaN sum raises \<open>ValueError\<close>.
\<close>

definition calculate_initial_stock ::
  "(forecast_row list \<Rightarrow> int \<Rightarrow> int \<Rightarrow> real) \<Rightarrow> policy_row \<Rightarrow> supplier_row
     \<Rightarrow> forecast_row list \<Rightarrow> int \<Rightarrow> exn + int" where
  "calculate_initial_stock safety_term policy supplier fc buffer_days =
     (let adjusted_lt = adjusted_lead_time supplier;
          lt_demand = sum_list (map predicted_units
             (filter (\<lambda>r. sim_start_date \<le> f_date r \<and> f_date r \<le> sim_start_date + adjusted_lt) fc))
      in if length fc < 2 \<or> adjusted_lt + buffer_days < 0
         then Inl (ValueError ''cannot convert float NaN to integer'')
         else Inr (max (reorder_point policy)
                     (py_int (fadd (of_int lt_demand) (safety_term fc adjusted_lt buffer_days)))))"

text \<open>The demand lookup of the day loop: the first forecast row of the day, and 0
  where the \<open>IndexError\<close> of a missing row is caught.\<close>

definition lookup_demand :: "forecast_row list \<Rightarrow> date \<Rightarrow> int" where
  "lookup_demand fc d =
     (case filter (\<lambda>r. f_date r = d) fc of
        [] \<Rightarrow> 0
      | r # _ \<Rightarrow> predicted_units r)"

text \<open>
  One pass of the body of the day loop of \<open>simulate_product\<close>, on the loop's
  variables \<open>current_stock\<close> and \<open>pending_orders\<close> (pairs of arrival date and
  quantity): the ledger row of the day and the variables after it.
\<close>

definition simulate_day ::
  "policy_row \<Rightarrow> supplier_row \<Rightarrow> forecast_row list \<Rightarrow> date \<Rightarrow> int \<times> (date \<times> int) list
     \<Rightarrow> ledger_row \<times> int \<times> (date \<times> int) list" where
  "simulate_day policy supplier fc d st =
     (let arrived = sum_list (map snd (filter (\<lambda>p. fst p = d) (snd st)));
          stock = fst st + arrived;
          pending1 = filter (\<lambda>p. d < fst p) (snd st);
          dem = lookup_demand fc d;
          sold_qty = min stock dem;
          unmet = max 0 (dem - sold_qty);
          closing = stock - sold_qty;
          place = (closing < reorder_point policy \<and> pending1 = []);
          order_qty = max (eoq policy) (MOQ supplier);
          pending2 = (if place then pending1 @ [(d + adjusted_lead_time supplier, order_qty)]
                      else pending1);
          restock = (if place then order_qty else 0)
      in (\<lparr>row_date = d, opening_stock = stock, row_demand = dem, sold = sold_qty,
           unmet_demand = unmet, closing_stock = closing, restock_qty = restock,
           holding_cost = of_int closing * unit_cost policy * HOLDING_RATE_DAILY,
           ordering_cost = (if 0 < restock then ORDER_COST else 0),
           row_supplier = supplier_id supplier\<rparr>,
          closing, pending2))"

fun simulate_loop ::
  "policy_row \<Rightarrow> supplier_row \<Rightarrow> forecast_row list \<Rightarrow> date list \<Rightarrow> ledger_row list
     \<Rightarrow> int \<times> (date \<times> int) list \<Rightarrow> ledger_row list \<times> int \<times> (date \<times> int) list" where
  "simulate_loop policy supplier fc [] ledger st = (ledger, st)"
| "simulate_loop policy supplier fc (d # ds) ledger st =
     (case simulate_day policy supplier fc d st of
        (row, st') \<Rightarrow> simulate_loop policy supplier fc ds (ledger @ [row]) st')"

text \<open>\<open>.iloc[0]\<close> of a filtered frame: its first row, \<open>IndexError\<close> when there is
  none.\<close>

definition iloc0 :: "'a list \<Rightarrow> exn + 'a" where
  "iloc0 rows = (case rows of [] \<Rightarrow> Inl (IndexError ''single positional indexer is out-of-bounds'')
                            | r # _ \<Rightarrow> Inr r)"

text \<open>
  The body of the \<open>try\<close> of \<open>simulate_product\<close>: the ledger, or the exception
  raised inside it.
\<close>

definition simulate_product_try ::
  "(forecast_row list \<Rightarrow> int \<Rightarrow> int \<Rightarrow> real) \<Rightarrow> data_loader \<Rightarrow> string
     \<Rightarrow> scenario_params option \<Rightarrow> exn + ledger_row list" where
  "simulate_product_try safety_term ld pid params =
     (case iloc0 (filter (\<lambda>p. policy_product_id p = pid) (policies ld)) of
        Inl e \<Rightarrow> Inl e
      | Inr base_policy \<Rightarrow>
          (let sups = filter (\<lambda>r. products r = pid) (suppliers ld);
               fc = filter (\<lambda>r. f_product_id r = pid) (forecast ld);
               wanted = (case params of
                           None \<Rightarrow> policy_supplier_id base_policy
                         | Some sp \<Rightarrow> (case sp_supplier_id sp of
                                        None \<Rightarrow> policy_supplier_id base_policy
                                      | Some x \<Rightarrow> x))
           in case iloc0 (filter (\<lambda>r. supplier_id r = wanted) sups) of
                Inl e \<Rightarrow> Inl e
              | Inr supplier \<Rightarrow>
                  (let policy = (case params of
                                   None \<Rightarrow> base_policy
                                 | Some sp \<Rightarrow> base_policy
                                     \<lparr>eoq := (case sp_eoq sp of None \<Rightarrow> eoq base_policy | Some v \<Rightarrow> v),
                                      reorder_point := (case sp_reorder_point sp of
                                          None \<Rightarrow> reorder_point base_policy | Some v \<Rightarrow> v),
                                      safety_stock := (case sp_safety_stock sp of
                                          None \<Rightarrow> safety_stock base_policy | Some v \<Rightarrow> v)\<rparr>);
                       buffer_days = (case params of
                                        None \<Rightarrow> 7
                                      | Some sp \<Rightarrow> (case sp_buffer_days sp of None \<Rightarrow> 7 | Some v \<Rightarrow> v));
                       end_date = sim_start_date + (30 + adjusted_lead_time supplier)
                   in case calculate_initial_stock safety_term policy supplier fc buffer_days of
                        Inl e \<Rightarrow> Inl e
                      | Inr stock0 \<Rightarrow>
                          Inr (fst (simulate_loop policy supplier fc
                                      [sim_start_date..end_date] [] (stock0, []))))))"

text \<open>
  \<open>simulate_product\<close>: every exception of the body is caught, shown with
  \<open>st.error\<close> (the first component) and an empty frame is returned (the second).
\<close>

definition simulate_product ::
  "(forecast_row list \<Rightarrow> int \<Rightarrow> int \<Rightarrow> real) \<Rightarrow> data_loader \<Rightarrow> string
     \<Rightarrow> scenario_params option \<Rightarrow> exn option \<times> ledger_row list" where
  "simulate_product safety_term ld pid params =
     (case simulate_product_try safety_term ld pid params of
        Inl e \<Rightarrow> (Some e, [])
      | Inr ledger \<Rightarrow> (None, ledger))"

section \<open>A worked scenario\<close>

text \<open>
  Concrete data on which the theorems below are instantiated: product P1 with reorder
  point 50, no safety stock, EOQ 200, unit cost 10; supplier S1 with lead time 2, MOQ 100,
  reliability 0.9 and unit cost 4; opening stock 60 on 2025-04-01 (ordinal 739342, a
  Tuesday) and a forecast of 20 units on each of the five days from there. The generator
  \<open>generator x\<close> returns \<open>x\<close> at every draw.
\<close>

definition scenario_supplier :: supplier_row where
  "scenario_supplier =
     \<lparr>supplier_id = ''S1'', products = ''P1'', lead_time = 2, MOQ = 100,
      reliability = 0.9, cost = 4\<rparr>"

definition scenario_policy :: policy_row where
  "scenario_policy =
     \<lparr>policy_product_id = ''P1'', policy_supplier_id = ''S1'', eoq = 200,
      reorder_point = 50, safety_stock = 0, unit_cost = 10\<rparr>"

definition scenario_data :: product_data_rec where
  "scenario_data =
     \<lparr>pd_supplier = scenario_supplier, pd_policy = scenario_policy,
      pd_forecast = [(739342, 20), (739343, 20), (739344, 20), (739345, 20), (739346, 20)],
      pd_ledger = [(739342, 60)]\<rparr>"

definition scenario_sim :: InventorySimulator where
  "scenario_sim = InventorySimulator_init ''P1'' scenario_data [scenario_supplier] None None"

definition generator :: "real \<Rightarrow> random_state" where
  "generator x = \<lparr>draws = (\<lambda>_. x), calls = 0\<rparr>"

definition scenario_loader :: data_loader where
  "scenario_loader =
     \<lparr>policies = [scenario_policy], suppliers = [scenario_supplier],
      forecast = [\<lparr>f_date = 739342, f_product_id = ''P1'', predicted_units = 20\<rparr>,
                  \<lparr>f_date = 739343, f_product_id = ''P1'', predicted_units = 20\<rparr>]\<rparr>"

lemmas scenario_defs = scenario_sim_def scenario_data_def scenario_policy_def
  scenario_supplier_def generator_def InventorySimulator_init_def OrderManager_init_def
  CostCalculator_init_def Let_def

lemmas engine_defs = run_def validate_date_range_def init_stock_state_def run_day_def
  process_order_arrivals_def get_daily_demand_def update_inventory_def check_reorder_point_def
  place_order_def random_random_def calculate_arrival_def BusinessDay_add_def adjust_ndays_def
  weekday_def get_pending_orders_def add_order_cost_def update_costs_def record_daily_result_def
  compile_results_def round2_def Let_def

lemmas dashboard_defs = simulate_product_def simulate_product_try_def iloc0_def
  calculate_initial_stock_def adjusted_lead_time_def py_int_def sim_start_date_def
  simulate_day_def lookup_demand_def HOLDING_RATE_DAILY_def ORDER_COST_def scenario_loader_def

section \<open>Properties of the what-if engine (core.py, order\_manager.py)\<close>

subsection \<open>The steps of a day\<close>

lemma update_inventory_eq:
  "update_inventory s d =
     (max (d - current_stock s) 0, s\<lparr>current_stock := max (current_stock s - d) 0\<rparr>)"
  by (simp add: update_inventory_def Let_def)

lemma process_order_arrivals_fields:
  "order_mgr (process_order_arrivals s d) = order_mgr s"
  "cost_calc (process_order_arrivals s d) = cost_calc s"
  "rop (process_order_arrivals s d) = rop s"
  "sim_eoq (process_order_arrivals s d) = sim_eoq s"
  "product_data (process_order_arrivals s d) = product_data s"
  by (simp_all add: process_order_arrivals_def)

lemma arrivals_foldl:
  "foldl (\<lambda>stock ord. if arrival_date ord = d then stock + quantity ord else stock) a os =
     a + sum_list (map quantity (filter (\<lambda>ord. arrival_date ord = d) os))"
  by (induction os arbitrary: a) auto

lemma process_order_arrivals_stock:
  "current_stock (process_order_arrivals s d) =
     current_stock s +
       sum_list (map quantity (filter (\<lambda>ord. arrival_date ord = d) (pending_orders (order_mgr s))))"
  by (simp add: process_order_arrivals_def get_pending_orders_def arrivals_foldl)

lemma place_order_cases:
  "place_order om d q g =
     (if om_reliability om < draws g (calls g)
      then (Inl (OrderFailedError ''Supplier reliability check failed''), g\<lparr>calls := calls g + 1\<rparr>)
      else (Inr (om\<lparr>pending_orders := pending_orders om @
                  [\<lparr>arrival_date = BusinessDay_add d (om_lead_time om),
                    quantity = max q (moq om), status = ''pending''\<rparr>]\<rparr>),
            g\<lparr>calls := calls g + 1\<rparr>))"
  by (simp add: place_order_def random_random_def calculate_arrival_def Let_def)

lemma check_reorder_point_blocked:
  "\<not> (current_stock s \<le> rop s \<and> pending_orders (order_mgr s) = []) \<Longrightarrow>
     check_reorder_point s d g = (s, g)"
  by (auto simp add: check_reorder_point_def get_pending_orders_def)

lemma check_reorder_point_attempt:
  "current_stock s \<le> rop s \<Longrightarrow> pending_orders (order_mgr s) = [] \<Longrightarrow>
     check_reorder_point s d g =
       (if om_reliability (order_mgr s) < draws g (calls g)
        then (s, g\<lparr>calls := calls g + 1\<rparr>)
        else (s\<lparr>order_mgr := (order_mgr s)\<lparr>pending_orders :=
                   [\<lparr>arrival_date = BusinessDay_add d (om_lead_time (order_mgr s)),
                     quantity = max (sim_eoq s) (moq (order_mgr s)), status = ''pending''\<rparr>]\<rparr>,
                cost_calc := add_order_cost (cost_calc s)\<rparr>,
              g\<lparr>calls := calls g + 1\<rparr>))"
  by (simp add: check_reorder_point_def get_pending_orders_def place_order_cases)

lemma check_reorder_point_fields:
  "current_stock (fst (check_reorder_point s d g)) = current_stock s"
  "rop (fst (check_reorder_point s d g)) = rop s"
  "sim_eoq (fst (check_reorder_point s d g)) = sim_eoq s"
  "product_data (fst (check_reorder_point s d g)) = product_data s"
  "order_cost (cost_calc (fst (check_reorder_point s d g))) = order_cost (cost_calc s)"
  "draws (snd (check_reorder_point s d g)) = draws g"
  by (cases "current_stock s \<le> rop s \<and> pending_orders (order_mgr s) = []";
      simp add: check_reorder_point_blocked check_reorder_point_attempt add_order_cost_def)+

lemma get_daily_demand_product_data:
  "product_data s = product_data s' \<Longrightarrow> get_daily_demand s d m = get_daily_demand s' d m"
  by (simp add: get_daily_demand_def split: option.splits)

lemma run_day_cases:
  "run_day m d (s, g) =
     (case get_daily_demand s d m of
        Inl e \<Rightarrow> (Inl e, process_order_arrivals s d, g)
      | Inr dem \<Rightarrow>
          (let s1 = process_order_arrivals s d;
               so = max (dem - current_stock s1) 0;
               c = check_reorder_point (s1\<lparr>current_stock := max (current_stock s1 - dem) 0\<rparr>) d g;
               s4 = (fst c)\<lparr>cost_calc := update_costs (cost_calc (fst c)) (current_stock (fst c)) so\<rparr>
           in (Inr (record_daily_result s4 d dem so), s4, snd c)))"
proof -
  have "get_daily_demand (process_order_arrivals s d) d m = get_daily_demand s d m"
    by (rule get_daily_demand_product_data) (simp add: process_order_arrivals_fields)
  then show ?thesis
    by (simp add: run_day_def update_inventory_eq Let_def split: sum.splits prod.splits)
qed

text \<open>What a day leaves untouched, and what it records.\<close>

lemma run_day_product_data:
  "run_day m d sg = (r, s', g') \<Longrightarrow> product_data s' = product_data (fst sg)"
  by (cases sg)
     (auto simp add: run_day_cases Let_def check_reorder_point_fields process_order_arrivals_fields
       split: sum.splits)

lemma run_day_record:
  "run_day m d sg = (Inr rec, s', g') \<Longrightarrow>
     rec_date rec = d \<and> rec_inventory rec = current_stock s' \<and> 0 \<le> current_stock s' \<and>
     rec_pending_orders rec = length (pending_orders (order_mgr s'))"
  by (cases sg)
     (auto simp add: run_day_cases Let_def check_reorder_point_fields record_daily_result_def
       get_pending_orders_def split: sum.splits)

lemma run_day_demand:
  "run_day m d sg = (Inr rec, s', g') \<Longrightarrow>
     get_daily_demand (fst sg) d m = Inr (rec_demand rec)"
  by (cases sg)
     (auto simp add: run_day_cases Let_def record_daily_result_def split: sum.splits)

lemma check_reorder_point_pending:
  "pending_orders (order_mgr (fst (check_reorder_point s d g))) = pending_orders (order_mgr s) \<or>
   (pending_orders (order_mgr s) = [] \<and>
    length (pending_orders (order_mgr (fst (check_reorder_point s d g)))) = 1)"
  by (cases "current_stock s \<le> rop s \<and> pending_orders (order_mgr s) = []")
     (simp_all add: check_reorder_point_blocked check_reorder_point_attempt)

lemma run_day_pending_le1:
  assumes "run_day m d sg = (r, s', g')"
    and "length (pending_orders (order_mgr (fst sg))) \<le> 1"
  shows "length (pending_orders (order_mgr s')) \<le> 1"
proof (cases sg)
  case (Pair s g)
  show ?thesis
  proof (cases "get_daily_demand s d m")
    case (Inl e)
    with assms Pair show ?thesis
      by (auto simp add: run_day_cases process_order_arrivals_fields)
  next
    case (Inr dem)
    let ?s2 = "(process_order_arrivals s d)
                 \<lparr>current_stock := max (current_stock (process_order_arrivals s d) - dem) 0\<rparr>"
    have s': "pending_orders (order_mgr s') =
               pending_orders (order_mgr (fst (check_reorder_point ?s2 d g)))"
      using assms(1) Pair Inr by (auto simp add: run_day_cases Let_def)
    have "pending_orders (order_mgr ?s2) = pending_orders (order_mgr s)"
      by (simp add: process_order_arrivals_fields)
    with check_reorder_point_pending [of ?s2 d g] s' assms(2) Pair show ?thesis
      by auto
  qed
qed

subsection \<open>The day loop\<close>

lemma run_loop_Cons_Inr:
  "run_day m d sg = (Inr rec, sg1) \<Longrightarrow>
     run_loop m (d # ds) acc sg = run_loop m ds (acc @ [rec]) sg1"
  by simp

lemma run_loop_Cons_Inl:
  "run_day m d sg = (Inl e, sg1) \<Longrightarrow> run_loop m (d # ds) acc sg = (Inl e, sg1)"
  by simp

lemma run_loop_pending_le1:
  "run_loop m ds acc sg = (r, s', g') \<Longrightarrow> length (pending_orders (order_mgr (fst sg))) \<le> 1 \<Longrightarrow>
     length (pending_orders (order_mgr s')) \<le> 1"
proof (induction ds arbitrary: acc sg)
  case Nil
  then show ?case by auto
next
  case (Cons d ds)
  obtain r1 s1 g1 where day: "run_day m d sg = (r1, s1, g1)"
    by (cases "run_day m d sg") auto
  have le: "length (pending_orders (order_mgr s1)) \<le> 1"
    using run_day_pending_le1 [OF day Cons.prems(2)] .
  show ?case
  proof (cases r1)
    case (Inl e)
    with day Cons.prems(1) le show ?thesis by simp
  next
    case (Inr rec)
    with day Cons.prems(1) have "run_loop m ds (acc @ [rec]) (s1, g1) = (r, s', g')" by simp
    from Cons.IH [OF this] le show ?thesis by simp
  qed
qed

lemma run_loop_records:
  "run_loop m ds acc sg = (Inr rs, sg') \<Longrightarrow>
     length (pending_orders (order_mgr (fst sg))) \<le> 1 \<Longrightarrow>
     \<forall>r\<in>set acc. rec_pending_orders r \<le> 1 \<and> 0 \<le> rec_inventory r \<Longrightarrow>
     \<forall>r\<in>set rs. rec_pending_orders r \<le> 1 \<and> 0 \<le> rec_inventory r"
proof (induction ds arbitrary: acc sg)
  case Nil
  then show ?case by auto
next
  case (Cons d ds)
  obtain r1 s1 g1 where day: "run_day m d sg = (r1, s1, g1)"
    by (cases "run_day m d sg") auto
  have le: "length (pending_orders (order_mgr s1)) \<le> 1"
    using run_day_pending_le1 [OF day Cons.prems(2)] .
  show ?case
  proof (cases r1)
    case (Inl e)
    with day Cons.prems(1) show ?thesis by simp
  next
    case (Inr rec)
    with day Cons.prems(1) have loop: "run_loop m ds (acc @ [rec]) (s1, g1) = (Inr rs, sg')"
      by simp
    from day Inr have day': "run_day m d sg = (Inr rec, s1, g1)" by simp
    from run_day_record [OF day'] le
    have new: "rec_pending_orders rec \<le> 1 \<and> 0 \<le> rec_inventory rec"
      by presburger
    have all: "\<forall>r\<in>set (acc @ [rec]). rec_pending_orders r \<le> 1 \<and> 0 \<le> rec_inventory r"
    proof
      fix r assume "r \<in> set (acc @ [rec])"
      then have "r \<in> set acc \<or> r = rec" by auto
      with Cons.prems(3) new show "rec_pending_orders r \<le> 1 \<and> 0 \<le> rec_inventory r"
        by blast
    qed
    have le': "length (pending_orders (order_mgr (fst (s1, g1)))) \<le> 1"
      using le by (simp only: fst_conv)
    show ?thesis by (rule Cons.IH [OF loop le' all])
  qed
qed

lemma run_loop_inventory:
  "run_loop m ds acc sg = (Inr rs, sg') \<Longrightarrow> \<forall>r\<in>set acc. 0 \<le> rec_inventory r \<Longrightarrow>
     \<forall>r\<in>set rs. 0 \<le> rec_inventory r"
proof (induction ds arbitrary: acc sg)
  case Nil
  then show ?case by auto
next
  case (Cons d ds)
  obtain r1 s1 g1 where day: "run_day m d sg = (r1, s1, g1)"
    by (cases "run_day m d sg") auto
  show ?case
  proof (cases r1)
    case (Inl e)
    with day Cons.prems(1) show ?thesis by simp
  next
    case (Inr rec)
    with day Cons.prems(1) have loop: "run_loop m ds (acc @ [rec]) (s1, g1) = (Inr rs, sg')"
      by simp
    from day Inr have "0 \<le> rec_inventory rec"
      using run_day_record [of m d sg rec s1 g1] by simp
    with Cons.prems(2) have "\<forall>r\<in>set (acc @ [rec]). 0 \<le> rec_inventory r"
      by auto
    with Cons.IH [OF loop] show ?thesis by simp
  qed
qed

lemma run_loop_product_data:
  "run_loop m ds acc sg = (r, s', g') \<Longrightarrow> product_data s' = product_data (fst sg)"
proof (induction ds arbitrary: acc sg)
  case Nil
  then show ?case by auto
next
  case (Cons d ds)
  obtain r1 s1 g1 where day: "run_day m d sg = (r1, s1, g1)"
    by (cases "run_day m d sg") auto
  note pd = run_day_product_data [OF day]
  show ?case
  proof (cases r1)
    case (Inl e)
    with day Cons.prems pd show ?thesis by simp
  next
    case (Inr rec)
    with day Cons.prems have "run_loop m ds (acc @ [rec]) (s1, g1) = (r, s', g')" by simp
    from Cons.IH [OF this] pd show ?thesis by simp
  qed
qed

lemma run_loop_complete:
  "run_loop m ds acc sg = (Inr rs, sg') \<Longrightarrow>
     map rec_date rs = map rec_date acc @ ds \<and>
     (\<forall>d\<in>set ds. \<exists>v. get_daily_demand (fst sg) d m = Inr v)"
proof (induction ds arbitrary: acc sg)
  case Nil
  then show ?case by auto
next
  case (Cons d ds)
  obtain r1 s1 g1 where day: "run_day m d sg = (r1, s1, g1)"
    by (cases "run_day m d sg") auto
  note pd = run_day_product_data [OF day]
  show ?case
  proof (cases r1)
    case (Inl e)
    with day Cons.prems show ?thesis by simp
  next
    case (Inr rec)
    with day Cons.prems have loop: "run_loop m ds (acc @ [rec]) (s1, g1) = (Inr rs, sg')"
      by simp
    have same: "get_daily_demand s1 x m = get_daily_demand (fst sg) x m" for x
      using pd by (rule get_daily_demand_product_data)
    from day Inr have here: "rec_date rec = d" "get_daily_demand (fst sg) d m = Inr (rec_demand rec)"
      using run_day_record [of m d sg rec s1 g1] run_day_demand [of m d sg rec s1 g1] by simp_all
    from Cons.IH [OF loop] have dates: "map rec_date rs = map rec_date (acc @ [rec]) @ ds"
      and rest: "\<forall>x\<in>set ds. \<exists>v. get_daily_demand s1 x m = Inr v"
      by simp_all
    from dates here(1) have "map rec_date rs = map rec_date acc @ d # ds" by simp
    moreover from rest same have "\<forall>x\<in>set ds. \<exists>v. get_daily_demand (fst sg) x m = Inr v"
      by metis
    ultimately show ?thesis using here(2) by simp
  qed
qed

lemma run_timeline_inventory:
  assumes "fst (run s0 a b m h f g) = Inr res"
  shows "\<forall>r\<in>set (timeline res). 0 \<le> rec_inventory r"
proof -
  from assms obtain s3 g3 rs s4 where
    loop: "run_loop m [a..b] [] (s3, g3) = (Inr rs, s4)" and res: "compile_results (fst s4) rs = Inr res"
    by (auto simp add: run_def Let_def split: option.splits sum.splits prod.splits)
  from run_loop_inventory [OF loop] have "\<forall>r\<in>set rs. 0 \<le> rec_inventory r" by simp
  moreover from res have "timeline res = rs"
    by (auto simp add: compile_results_def split: if_splits)
  ultimately show ?thesis by simp
qed

lemma process_order_arrivals_nonneg:
  assumes "0 \<le> current_stock s" and "\<forall>ord\<in>set (pending_orders (order_mgr s)). 0 \<le> quantity ord"
  shows "0 \<le> current_stock (process_order_arrivals s d)"
proof -
  have "0 \<le> sum_list (map quantity (filter (\<lambda>ord. arrival_date ord = d) (pending_orders (order_mgr s))))"
    using assms(2) by (intro sum_list_nonneg) auto
  with assms(1) show ?thesis by (simp add: process_order_arrivals_stock)
qed

lemma get_daily_demand_missing:
  assumes "modifications d = None" and "d \<notin> fst ` set (pd_forecast (product_data s))"
  shows "get_daily_demand s d modifications = Inl (ValueError ''No forecast available for date'')"
proof -
  have "filter (\<lambda>row. fst row = d) (pd_forecast (product_data s)) = []"
    using assms(2) by (auto simp add: filter_empty_conv)
  with assms(1) show ?thesis by (simp add: get_daily_demand_def)
qed

lemma get_daily_demand_Inr:
  assumes "get_daily_demand s d modifications = Inr v"
  shows "modifications d = Some v \<or>
         (modifications d = None \<and> (d, v) \<in> set (pd_forecast (product_data s)))"
proof (cases "modifications d")
  case (Some w)
  with assms show ?thesis by (simp add: get_daily_demand_def)
next
  case None
  show ?thesis
  proof (cases "filter (\<lambda>row. fst row = d) (pd_forecast (product_data s))")
    case Nil
    with None assms show ?thesis by (simp add: get_daily_demand_def)
  next
    case (Cons r rs)
    then have "r \<in> set (filter (\<lambda>row. fst row = d) (pd_forecast (product_data s)))" by simp
    then have "r \<in> set (pd_forecast (product_data s))" "fst r = d" by simp_all
    moreover from None Cons assms have "snd r = v" by (simp add: get_daily_demand_def)
    ultimately show ?thesis using None by (cases r) auto
  qed
qed

lemma BusinessDay_add_weekday:
  assumes "weekday d \<le> 4" and "0 \<le> n"
  shows "BusinessDay_add d n = d + n + 2 * ((weekday d + n) div 5)"
proof -
  define w where "w = weekday d"
  define q where "q = n div 5"
  define r where "r = n mod 5"
  have w: "0 \<le> w" "w \<le> 4" using assms(1) by (simp_all add: w_def weekday_def)
  have r: "0 \<le> r" "r < 5" by (simp_all add: r_def)
  have n: "n = 5 * q + r" by (simp add: q_def r_def)
  have adj: "adjust_ndays n w q = (if w + r \<le> 4 then r else r + 2)"
    using w r n by (simp add: adjust_ndays_def Let_def)
  have "(w + n) div 5 = q + (w + r) div 5"
    using n by (simp add: add.commute add.left_commute)
  moreover have "(w + r) div 5 = (if w + r \<le> 4 then 0 else 1)"
    using w r by auto
  ultimately have dv: "(w + n) div 5 = (if w + r \<le> 4 then q else q + 1)" by simp
  have "BusinessDay_add d n = d + (7 * q + adjust_ndays n w q)"
    by (simp add: BusinessDay_add_def Let_def w_def q_def)
  also have "\<dots> = d + (7 * q + (if w + r \<le> 4 then r else r + 2))"
    by (simp only: adj)
  also have "\<dots> = d + n + 2 * (if w + r \<le> 4 then q else q + 1)"
    using n by simp
  also have "\<dots> = d + n + 2 * ((w + n) div 5)"
    by (simp only: dv)
  finally show ?thesis by (simp only: w_def)
qed

lemma place_order_Inr:
  assumes "fst (place_order om d q g) = Inr om'"
  shows "pending_orders om' = pending_orders om @
           [\<lparr>arrival_date = BusinessDay_add d (om_lead_time om), quantity = max q (moq om),
             status = ''pending''\<rparr>]"
  using assms by (auto simp add: place_order_cases split: if_splits)

subsection \<open>Orders over a run\<close>

lemma check_reorder_point_calls:
  "(calls (snd (check_reorder_point s d g)) = calls g + 1) =
     (current_stock s \<le> rop s \<and> pending_orders (order_mgr s) = [])"
  by (cases "current_stock s \<le> rop s \<and> pending_orders (order_mgr s) = []")
     (simp_all add: check_reorder_point_blocked check_reorder_point_attempt)

lemma check_reorder_point_ordering:
  assumes "length (pending_orders (order_mgr s)) \<le> 1"
    and "total_ordering (cost_calc s) =
           of_nat (length (pending_orders (order_mgr s))) * order_cost (cost_calc s)"
  shows "length (pending_orders (order_mgr (fst (check_reorder_point s d g)))) \<le> 1 \<and>
         total_ordering (cost_calc (fst (check_reorder_point s d g))) =
           of_nat (length (pending_orders (order_mgr (fst (check_reorder_point s d g))))) *
             order_cost (cost_calc (fst (check_reorder_point s d g)))"
proof (cases "current_stock s \<le> rop s \<and> pending_orders (order_mgr s) = []")
  case False
  with assms show ?thesis by (simp add: check_reorder_point_blocked)
next
  case True
  with assms(2) have "total_ordering (cost_calc s) = 0" by simp
  with True show ?thesis
    by (simp add: check_reorder_point_attempt add_order_cost_def)
qed

lemma run_day_after_check:
  assumes "run_day m d (s, g) = (Inr rec, s', g')"
  shows "\<exists>s2. order_mgr s2 = order_mgr s \<and> cost_calc s2 = cost_calc s \<and>
           order_mgr s' = order_mgr (fst (check_reorder_point s2 d g)) \<and>
           total_ordering (cost_calc s') = total_ordering (cost_calc (fst (check_reorder_point s2 d g))) \<and>
           order_cost (cost_calc s') = order_cost (cost_calc (fst (check_reorder_point s2 d g))) \<and>
           g' = snd (check_reorder_point s2 d g)"
proof -
  from assms obtain dem where dem: "get_daily_demand s d m = Inr dem"
    by (cases "get_daily_demand s d m") (auto simp add: run_day_cases)
  let ?s1 = "process_order_arrivals s d"
  let ?s2 = "?s1\<lparr>current_stock := max (current_stock ?s1 - dem) 0\<rparr>"
  have "order_mgr ?s2 = order_mgr s \<and> cost_calc ?s2 = cost_calc s"
    by (simp add: process_order_arrivals_fields)
  moreover from assms dem have
    "s' = (fst (check_reorder_point ?s2 d g))
            \<lparr>cost_calc := update_costs (cost_calc (fst (check_reorder_point ?s2 d g)))
                 (current_stock (fst (check_reorder_point ?s2 d g)))
                 (max (dem - current_stock ?s1) 0)\<rparr>"
    and "g' = snd (check_reorder_point ?s2 d g)"
    by (simp_all add: run_day_cases Let_def)
  ultimately show ?thesis
    by (intro exI [of _ ?s2]) (simp add: update_costs_def)
qed

lemma run_day_Inl_state:
  assumes "run_day m d (s, g) = (Inl e, s', g')"
  shows "order_mgr s' = order_mgr s \<and> cost_calc s' = cost_calc s \<and> g' = g"
  using assms
  by (cases "get_daily_demand s d m")
     (auto simp add: run_day_cases Let_def process_order_arrivals_fields)

lemma run_day_ordering:
  assumes day: "run_day m d sg = (r, s', g')"
    and le: "length (pending_orders (order_mgr (fst sg))) \<le> 1"
    and tot: "total_ordering (cost_calc (fst sg)) =
           of_nat (length (pending_orders (order_mgr (fst sg)))) * order_cost (cost_calc (fst sg))"
  shows "length (pending_orders (order_mgr s')) \<le> 1 \<and>
         total_ordering (cost_calc s') =
           of_nat (length (pending_orders (order_mgr s'))) * order_cost (cost_calc s')"
proof (cases sg)
  case (Pair s g)
  show ?thesis
  proof (cases r)
    case (Inl e)
    with day Pair have "order_mgr s' = order_mgr s \<and> cost_calc s' = cost_calc s"
      using run_day_Inl_state [of m d s g e s' g'] by simp
    with le tot Pair show ?thesis by simp
  next
    case (Inr rec)
    with day Pair obtain s2 where s2: "order_mgr s2 = order_mgr s" "cost_calc s2 = cost_calc s"
      and s': "order_mgr s' = order_mgr (fst (check_reorder_point s2 d g))"
        "total_ordering (cost_calc s') = total_ordering (cost_calc (fst (check_reorder_point s2 d g)))"
        "order_cost (cost_calc s') = order_cost (cost_calc (fst (check_reorder_point s2 d g)))"
      using run_day_after_check [of m d s g rec s' g'] by auto
    from le tot Pair s2 have "length (pending_orders (order_mgr s2)) \<le> 1"
      and "total_ordering (cost_calc s2) =
             of_nat (length (pending_orders (order_mgr s2))) * order_cost (cost_calc s2)"
      by simp_all
    from check_reorder_point_ordering [OF this, of d g] s' show ?thesis by simp
  qed
qed

lemma run_day_blocked:
  assumes day: "run_day m d sg = (r, s', g')"
    and ne: "pending_orders (order_mgr (fst sg)) \<noteq> []"
  shows "order_mgr s' = order_mgr (fst sg) \<and>
         total_ordering (cost_calc s') = total_ordering (cost_calc (fst sg)) \<and> g' = snd sg"
proof (cases sg)
  case (Pair s g)
  show ?thesis
  proof (cases r)
    case (Inl e)
    with day Pair show ?thesis
      using run_day_Inl_state [of m d s g e s' g'] by simp
  next
    case (Inr rec)
    with day Pair obtain s2 where s2: "order_mgr s2 = order_mgr s" "cost_calc s2 = cost_calc s"
      and s': "order_mgr s' = order_mgr (fst (check_reorder_point s2 d g))"
        "total_ordering (cost_calc s') = total_ordering (cost_calc (fst (check_reorder_point s2 d g)))"
        "g' = snd (check_reorder_point s2 d g)"
      using run_day_after_check [of m d s g rec s' g'] by auto
    from ne Pair s2 have "\<not> (current_stock s2 \<le> rop s2 \<and> pending_orders (order_mgr s2) = [])"
      by simp
    then have "check_reorder_point s2 d g = (s2, g)" by (rule check_reorder_point_blocked)
    with s' s2 Pair show ?thesis by simp
  qed
qed

lemma run_loop_ordering:
  "run_loop m ds acc sg = (r, s', g') \<Longrightarrow>
     length (pending_orders (order_mgr (fst sg))) \<le> 1 \<Longrightarrow>
     total_ordering (cost_calc (fst sg)) =
       of_nat (length (pending_orders (order_mgr (fst sg)))) * order_cost (cost_calc (fst sg)) \<Longrightarrow>
     length (pending_orders (order_mgr s')) \<le> 1 \<and>
     total_ordering (cost_calc s') =
       of_nat (length (pending_orders (order_mgr s'))) * order_cost (cost_calc s')"
proof (induction ds arbitrary: acc sg)
  case Nil
  then show ?case by auto
next
  case (Cons d ds)
  obtain r1 s1 g1 where day: "run_day m d sg = (r1, s1, g1)"
    by (cases "run_day m d sg") auto
  note inv = run_day_ordering [OF day Cons.prems(2) Cons.prems(3)]
  show ?case
  proof (cases r1)
    case (Inl e)
    with day Cons.prems(1) have "s' = s1" by simp
    with inv show ?thesis by simp
  next
    case (Inr rec)
    with day Cons.prems(1) have loop: "run_loop m ds (acc @ [rec]) (s1, g1) = (r, s', g')"
      by simp
    from inv have a: "length (pending_orders (order_mgr (fst (s1, g1)))) \<le> 1"
      and b: "total_ordering (cost_calc (fst (s1, g1))) =
        of_nat (length (pending_orders (order_mgr (fst (s1, g1))))) * order_cost (cost_calc (fst (s1, g1)))"
      by simp_all
    show ?thesis by (rule Cons.IH [OF loop a b])
  qed
qed

lemma run_loop_blocked:
  "run_loop m ds acc sg = (r, s', g') \<Longrightarrow> pending_orders (order_mgr (fst sg)) \<noteq> [] \<Longrightarrow>
     order_mgr s' = order_mgr (fst sg) \<and>
     total_ordering (cost_calc s') = total_ordering (cost_calc (fst sg)) \<and> g' = snd sg"
proof (induction ds arbitrary: acc sg)
  case Nil
  then show ?case by auto
next
  case (Cons d ds)
  obtain r1 s1 g1 where day: "run_day m d sg = (r1, s1, g1)"
    by (cases "run_day m d sg") auto
  note same = run_day_blocked [OF day Cons.prems(2)]
  show ?case
  proof (cases r1)
    case (Inl e)
    with day Cons.prems(1) have "s' = s1" "g' = g1" by simp_all
    with same show ?thesis by simp
  next
    case (Inr rec)
    with day Cons.prems(1) have loop: "run_loop m ds (acc @ [rec]) (s1, g1) = (r, s', g')"
      by simp
    from same Cons.prems(2) have ne: "pending_orders (order_mgr (fst (s1, g1))) \<noteq> []"
      by simp
    from Cons.IH [OF loop ne] same show ?thesis by simp
  qed
qed

subsection \<open>The shape of a run\<close>

lemma override_supplier_Inr:
  "override_supplier s sid = Inr s2 \<Longrightarrow>
     product_data s2 = product_data s \<and> cost_calc s2 = cost_calc s \<and>
     pending_orders (order_mgr s2) = []"
  by (auto simp add: override_supplier_def OrderManager_init_def split: list.splits)

lemma init_stock_state_Inr:
  "init_stock_state s start_date = Inr s3 \<Longrightarrow>
     product_data s3 = product_data s \<and> cost_calc s3 = cost_calc s \<and>
     order_mgr s3 = order_mgr s \<and>
     start_date \<in> fst ` set (pd_ledger (product_data s))"
proof -
  assume a: "init_stock_state s start_date = Inr s3"
  show ?thesis
  proof (cases "filter (\<lambda>row. fst row = start_date) (pd_ledger (product_data s))")
    case Nil
    with a show ?thesis by (simp add: init_stock_state_def)
  next
    case (Cons x xs)
    then have "x \<in> set (filter (\<lambda>row. fst row = start_date) (pd_ledger (product_data s)))"
      by simp
    then have "start_date \<in> fst ` set (pd_ledger (product_data s))" by auto
    with a Cons show ?thesis by (auto simp add: init_stock_state_def)
  qed
qed

text \<open>
  Either \<open>run\<close> ends before the day loop with an exception, the orders and the
  ordering total being those of the start or the orders emptied by a supplier
  override, or it reaches the loop with such a state.
\<close>

lemma run_shape:
  assumes "run s0 a b m h f g = (r, s', g')"
  shows "(\<exists>e. r = Inl e \<and> g' = g \<and>
            product_data s' = product_data s0 \<and>
            order_cost (cost_calc s') = order_cost (cost_calc s0) \<and>
            total_ordering (cost_calc s') = total_ordering (cost_calc s0) \<and>
            (pending_orders (order_mgr s') = pending_orders (order_mgr s0) \<or>
             pending_orders (order_mgr s') = []))
       \<or> (\<exists>s3 rl. product_data s3 = product_data s0 \<and>
            order_cost (cost_calc s3) = order_cost (cost_calc s0) \<and>
            total_ordering (cost_calc s3) = total_ordering (cost_calc s0) \<and>
            (pending_orders (order_mgr s3) = pending_orders (order_mgr s0) \<or>
             pending_orders (order_mgr s3) = []) \<and>
            (f = None \<longrightarrow> order_mgr s3 = order_mgr s0) \<and>
            validate_date_range (pd_forecast (product_data s0)) a b = Inr () \<and>
            a \<in> fst ` set (pd_ledger (product_data s0)) \<and>
            run_loop m [a..b] [] (s3, g) = (rl, s', g') \<and>
            r = (case rl of Inl e \<Rightarrow> Inl e | Inr rs \<Rightarrow> compile_results s' rs))"
proof -
  define s1 where "s1 = (case h of None \<Rightarrow> s0
      | Some x \<Rightarrow> s0\<lparr>cost_calc := (cost_calc s0)
           \<lparr>holding_rate := unit_cost (pd_policy (product_data s0)) * x / 365\<rparr>\<rparr>)"
  have s1: "product_data s1 = product_data s0" "order_mgr s1 = order_mgr s0"
    "order_cost (cost_calc s1) = order_cost (cost_calc s0)"
    "total_ordering (cost_calc s1) = total_ordering (cost_calc s0)"
    by (simp_all add: s1_def split: option.splits)
  define o2 where "o2 = (case f of None \<Rightarrow> Inr s1 | Some sid \<Rightarrow> override_supplier s1 sid)"
  have run: "run s0 a b m h f g =
     (case o2 of
           Inl e \<Rightarrow> (Inl e, s1, g)
         | Inr s2 \<Rightarrow>
             (case validate_date_range (pd_forecast (product_data s2)) a b of
                Inl e \<Rightarrow> (Inl e, s2, g)
              | Inr _ \<Rightarrow>
                  (case init_stock_state s2 a of
                     Inl e \<Rightarrow> (Inl e, s2, g)
                   | Inr s3 \<Rightarrow>
                       (case run_loop m [a..b] [] (s3, g) of
                          (Inl e, sg) \<Rightarrow> (Inl e, sg)
                        | (Inr results, s4, g') \<Rightarrow> (compile_results s4 results, s4, g')))))"
    unfolding run_def s1_def o2_def Let_def by (rule refl)
  show ?thesis
  proof (cases o2)
    case (Inl e)
    with run assms s1 show ?thesis by auto
  next
    case (Inr s2)
    have s2: "product_data s2 = product_data s0"
      "order_cost (cost_calc s2) = order_cost (cost_calc s0)"
      "total_ordering (cost_calc s2) = total_ordering (cost_calc s0)"
      "pending_orders (order_mgr s2) = pending_orders (order_mgr s0) \<or>
         pending_orders (order_mgr s2) = []"
      "f = None \<longrightarrow> order_mgr s2 = order_mgr s0"
      using Inr s1 override_supplier_Inr [of s1 _ s2]
      by (auto simp add: o2_def split: option.splits)
    show ?thesis
    proof (cases "validate_date_range (pd_forecast (product_data s2)) a b")
      case (Inl e)
      with run assms Inr s2 show ?thesis by auto
    next
      case v: (Inr u)
      show ?thesis
      proof (cases "init_stock_state s2 a")
        case (Inl e)
        with run assms Inr s2 v show ?thesis by auto
      next
        case i: (Inr s3)
        note s3 = init_stock_state_Inr [OF i]
        obtain rl s4 g4 where loop: "run_loop m [a..b] [] (s3, g) = (rl, s4, g4)"
          by (cases "run_loop m [a..b] [] (s3, g)") auto
        with run assms Inr v i have res: "s' = s4" "g' = g4"
          "r = (case rl of Inl e \<Rightarrow> Inl e | Inr rs \<Rightarrow> compile_results s4 rs)"
          by (auto split: sum.splits)
        have "product_data s3 = product_data s0 \<and>
            order_cost (cost_calc s3) = order_cost (cost_calc s0) \<and>
            total_ordering (cost_calc s3) = total_ordering (cost_calc s0) \<and>
            (pending_orders (order_mgr s3) = pending_orders (order_mgr s0) \<or>
             pending_orders (order_mgr s3) = []) \<and>
            (f = None \<longrightarrow> order_mgr s3 = order_mgr s0) \<and>
            validate_date_range (pd_forecast (product_data s0)) a b = Inr () \<and>
            a \<in> fst ` set (pd_ledger (product_data s0)) \<and>
            run_loop m [a..b] [] (s3, g) = (rl, s', g') \<and>
            r = (case rl of Inl e \<Rightarrow> Inl e | Inr rs \<Rightarrow> compile_results s' rs)"
          using s2 s3 v loop res by auto
        then show ?thesis by blast
      qed
    qed
  qed
qed

lemma run_day_order_cost:
  assumes "run_day m d sg = (r, s', g')"
  shows "order_cost (cost_calc s') = order_cost (cost_calc (fst sg))"
proof (cases sg)
  case (Pair s g)
  show ?thesis
  proof (cases r)
    case (Inl e)
    with assms Pair show ?thesis
      using run_day_Inl_state [of m d s g e s' g'] by simp
  next
    case (Inr rec)
    with assms Pair obtain s2 where "cost_calc s2 = cost_calc s"
      and "order_cost (cost_calc s') = order_cost (cost_calc (fst (check_reorder_point s2 d g)))"
      using run_day_after_check [of m d s g rec s' g'] by auto
    with Pair show ?thesis by (simp add: check_reorder_point_fields)
  qed
qed

lemma run_loop_order_cost:
  "run_loop m ds acc sg = (r, s', g') \<Longrightarrow>
     order_cost (cost_calc s') = order_cost (cost_calc (fst sg))"
proof (induction ds arbitrary: acc sg)
  case Nil
  then show ?case by auto
next
  case (Cons d ds)
  obtain r1 s1 g1 where day: "run_day m d sg = (r1, s1, g1)"
    by (cases "run_day m d sg") auto
  note oc = run_day_order_cost [OF day]
  show ?case
  proof (cases r1)
    case (Inl e)
    with day Cons.prems have "s' = s1" by simp
    with oc show ?thesis by simp
  next
    case (Inr rec)
    with day Cons.prems have "run_loop m ds (acc @ [rec]) (s1, g1) = (r, s', g')" by simp
    from Cons.IH [OF this] oc show ?thesis by simp
  qed
qed

lemma compile_results_Inr:
  "compile_results s rs = Inr res \<Longrightarrow>
     timeline res = rs \<and> rs \<noteq> [] \<and>
     total_ordering_cost (metrics res) = round2 (total_ordering (cost_calc s))"
  by (auto simp add: compile_results_def split: if_splits)

lemma run_pending_le1:
  assumes run: "run s0 a b m h f g = (r, s', g')"
    and le: "length (pending_orders (order_mgr s0)) \<le> 1"
  shows "length (pending_orders (order_mgr s')) \<le> 1 \<and>
         (\<forall>res. r = Inr res \<longrightarrow> (\<forall>rec\<in>set (timeline res). rec_pending_orders rec \<le> 1))"
  using run_shape [OF run]
proof
  assume "\<exists>e. r = Inl e \<and> g' = g \<and>
            product_data s' = product_data s0 \<and>
            order_cost (cost_calc s') = order_cost (cost_calc s0) \<and>
            total_ordering (cost_calc s') = total_ordering (cost_calc s0) \<and>
            (pending_orders (order_mgr s') = pending_orders (order_mgr s0) \<or>
             pending_orders (order_mgr s') = [])"
  then obtain e where "r = Inl e"
    and "pending_orders (order_mgr s') = pending_orders (order_mgr s0) \<or>
         pending_orders (order_mgr s') = []"
    by blast
  with le show ?thesis by auto
next
  assume "\<exists>s3 rl. product_data s3 = product_data s0 \<and>
            order_cost (cost_calc s3) = order_cost (cost_calc s0) \<and>
            total_ordering (cost_calc s3) = total_ordering (cost_calc s0) \<and>
            (pending_orders (order_mgr s3) = pending_orders (order_mgr s0) \<or>
             pending_orders (order_mgr s3) = []) \<and>
            (f = None \<longrightarrow> order_mgr s3 = order_mgr s0) \<and>
            validate_date_range (pd_forecast (product_data s0)) a b = Inr () \<and>
            a \<in> fst ` set (pd_ledger (product_data s0)) \<and>
            run_loop m [a..b] [] (s3, g) = (rl, s', g') \<and>
            r = (case rl of Inl e \<Rightarrow> Inl e | Inr rs \<Rightarrow> compile_results s' rs)"
  then obtain s3 rl where
    p: "pending_orders (order_mgr s3) = pending_orders (order_mgr s0) \<or>
             pending_orders (order_mgr s3) = []"
    and loop: "run_loop m [a..b] [] (s3, g) = (rl, s', g')"
    and r: "r = (case rl of Inl e \<Rightarrow> Inl e | Inr rs \<Rightarrow> compile_results s' rs)"
    by blast
  from p le have le3: "length (pending_orders (order_mgr (fst (s3, g)))) \<le> 1" by auto
  note le' = run_loop_pending_le1 [OF loop le3]
  have "\<forall>rec\<in>set (timeline res). rec_pending_orders rec \<le> 1" if "r = Inr res" for res
  proof -
    from that r obtain rs where rl: "rl = Inr rs" and c: "compile_results s' rs = Inr res"
      by (cases rl) auto
    from loop rl have "run_loop m [a..b] [] (s3, g) = (Inr rs, s', g')" by simp
    from run_loop_records [OF this le3] have "\<forall>rec\<in>set rs. rec_pending_orders rec \<le> 1"
      by simp
    with compile_results_Inr [OF c] show ?thesis by simp
  qed
  with le' show ?thesis by blast
qed

lemma run_fresh_ordering:
  assumes run: "run (InventorySimulator_init pid pd sups hr fs) a b m h f g = (r, s', g')"
  shows "length (pending_orders (order_mgr s')) \<le> 1 \<and>
         total_ordering (cost_calc s') =
           of_nat (length (pending_orders (order_mgr s'))) * order_cost (cost_calc s') \<and>
         order_cost (cost_calc s') = 0.1 * of_int (MOQ (pd_supplier pd)) * cost (pd_supplier pd)"
proof -
  let ?s0 = "InventorySimulator_init pid pd sups hr fs"
  have s0: "pending_orders (order_mgr ?s0) = []" "total_ordering (cost_calc ?s0) = 0"
    "order_cost (cost_calc ?s0) = 0.1 * of_int (MOQ (pd_supplier pd)) * cost (pd_supplier pd)"
    by (simp_all add: InventorySimulator_init_def OrderManager_init_def CostCalculator_init_def
          Let_def)
  from run_shape [OF run] show ?thesis
  proof
    assume "\<exists>e. r = Inl e \<and> g' = g \<and>
            product_data s' = product_data ?s0 \<and>
            order_cost (cost_calc s') = order_cost (cost_calc ?s0) \<and>
            total_ordering (cost_calc s') = total_ordering (cost_calc ?s0) \<and>
            (pending_orders (order_mgr s') = pending_orders (order_mgr ?s0) \<or>
             pending_orders (order_mgr s') = [])"
    then obtain e where "order_cost (cost_calc s') = order_cost (cost_calc ?s0)"
      and t: "total_ordering (cost_calc s') = total_ordering (cost_calc ?s0)"
      and p: "pending_orders (order_mgr s') = pending_orders (order_mgr ?s0) \<or>
             pending_orders (order_mgr s') = []"
      by blast
    then have oc: "order_cost (cost_calc s') =
        0.1 * of_int (MOQ (pd_supplier pd)) * cost (pd_supplier pd)"
      by (simp only: s0(3))
    from p s0(1) have "pending_orders (order_mgr s') = []" by auto
    moreover from t s0(2) have "total_ordering (cost_calc s') = 0" by simp
    ultimately show ?thesis using oc by simp
  next
    assume "\<exists>s3 rl. product_data s3 = product_data ?s0 \<and>
            order_cost (cost_calc s3) = order_cost (cost_calc ?s0) \<and>
            total_ordering (cost_calc s3) = total_ordering (cost_calc ?s0) \<and>
            (pending_orders (order_mgr s3) = pending_orders (order_mgr ?s0) \<or>
             pending_orders (order_mgr s3) = []) \<and>
            (f = None \<longrightarrow> order_mgr s3 = order_mgr ?s0) \<and>
            validate_date_range (pd_forecast (product_data ?s0)) a b = Inr () \<and>
            a \<in> fst ` set (pd_ledger (product_data ?s0)) \<and>
            run_loop m [a..b] [] (s3, g) = (rl, s', g') \<and>
            r = (case rl of Inl e \<Rightarrow> Inl e | Inr rs \<Rightarrow> compile_results s' rs)"
    then obtain s3 rl where oc: "order_cost (cost_calc s3) = order_cost (cost_calc ?s0)"
      and tot: "total_ordering (cost_calc s3) = total_ordering (cost_calc ?s0)"
      and p: "pending_orders (order_mgr s3) = pending_orders (order_mgr ?s0) \<or>
             pending_orders (order_mgr s3) = []"
      and loop: "run_loop m [a..b] [] (s3, g) = (rl, s', g')"
      by blast
    from p s0 have e: "pending_orders (order_mgr s3) = []" by auto
    then have a: "length (pending_orders (order_mgr (fst (s3, g)))) \<le> 1" by simp
    from e tot s0 have b: "total_ordering (cost_calc (fst (s3, g))) =
        of_nat (length (pending_orders (order_mgr (fst (s3, g))))) * order_cost (cost_calc (fst (s3, g)))"
      by simp
    note inv = run_loop_ordering [OF loop a b]
    have "order_cost (cost_calc s') = order_cost (cost_calc ?s0)"
      using run_loop_order_cost [OF loop] oc by simp
    then have "order_cost (cost_calc s') =
        0.1 * of_int (MOQ (pd_supplier pd)) * cost (pd_supplier pd)"
      by (simp only: s0(3))
    with inv show ?thesis by blast
  qed
qed

subsection \<open>Dependence on the global generator\<close>

lemma check_reorder_point_agree:
  assumes "draws g1 (calls g1) = draws g2 (calls g2)"
  shows "fst (check_reorder_point s d g1) = fst (check_reorder_point s d g2) \<and>
         (\<exists>k\<le>1. snd (check_reorder_point s d g1) = g1\<lparr>calls := calls g1 + k\<rparr> \<and>
                 snd (check_reorder_point s d g2) = g2\<lparr>calls := calls g2 + k\<rparr>)"
proof (cases "current_stock s \<le> rop s \<and> pending_orders (order_mgr s) = []")
  case False
  then have "check_reorder_point s d g1 = (s, g1)" "check_reorder_point s d g2 = (s, g2)"
    by (simp_all add: check_reorder_point_blocked)
  then show ?thesis by (intro conjI exI [of _ 0]) simp_all
next
  case True
  with assms show ?thesis
    by (intro conjI exI [of _ 1]) (simp_all add: check_reorder_point_attempt)
qed

lemma run_day_agree:
  assumes "draws g1 (calls g1) = draws g2 (calls g2)"
  shows "fst (run_day m d (s, g1)) = fst (run_day m d (s, g2)) \<and>
         fst (snd (run_day m d (s, g1))) = fst (snd (run_day m d (s, g2))) \<and>
         (\<exists>k\<le>1. snd (snd (run_day m d (s, g1))) = g1\<lparr>calls := calls g1 + k\<rparr> \<and>
                 snd (snd (run_day m d (s, g2))) = g2\<lparr>calls := calls g2 + k\<rparr>)"
proof (cases "get_daily_demand s d m")
  case (Inl e)
  then show ?thesis
    by (intro conjI exI [of _ 0]) (simp_all add: run_day_cases)
next
  case (Inr dem)
  let ?s2 = "(process_order_arrivals s d)
                \<lparr>current_stock := max (current_stock (process_order_arrivals s d) - dem) 0\<rparr>"
  from check_reorder_point_agree [OF assms, of ?s2 d] obtain k where
    k: "k \<le> 1" and st: "fst (check_reorder_point ?s2 d g1) = fst (check_reorder_point ?s2 d g2)"
    and g1: "snd (check_reorder_point ?s2 d g1) = g1\<lparr>calls := calls g1 + k\<rparr>"
    and g2: "snd (check_reorder_point ?s2 d g2) = g2\<lparr>calls := calls g2 + k\<rparr>"
    by blast
  from Inr st g1 g2 have
    "fst (run_day m d (s, g1)) = fst (run_day m d (s, g2))"
    "fst (snd (run_day m d (s, g1))) = fst (snd (run_day m d (s, g2)))"
    "snd (snd (run_day m d (s, g1))) = g1\<lparr>calls := calls g1 + k\<rparr>"
    "snd (snd (run_day m d (s, g2))) = g2\<lparr>calls := calls g2 + k\<rparr>"
    by (simp_all add: run_day_cases Let_def)
  with k show ?thesis by blast
qed

lemma run_loop_agree:
  "\<forall>i<length ds. draws g1 (calls g1 + i) = draws g2 (calls g2 + i) \<Longrightarrow>
     fst (run_loop m ds acc (s, g1)) = fst (run_loop m ds acc (s, g2)) \<and>
     fst (snd (run_loop m ds acc (s, g1))) = fst (snd (run_loop m ds acc (s, g2)))"
proof (induction ds arbitrary: acc s g1 g2)
  case Nil
  then show ?case by simp
next
  case (Cons d ds)
  from Cons.prems have first: "draws g1 (calls g1) = draws g2 (calls g2)" by force
  from run_day_agree [OF first, of m d s] obtain k where k: "k \<le> 1"
    and r: "fst (run_day m d (s, g1)) = fst (run_day m d (s, g2))"
    and st: "fst (snd (run_day m d (s, g1))) = fst (snd (run_day m d (s, g2)))"
    and g1: "snd (snd (run_day m d (s, g1))) = g1\<lparr>calls := calls g1 + k\<rparr>"
    and g2: "snd (snd (run_day m d (s, g2))) = g2\<lparr>calls := calls g2 + k\<rparr>"
    by blast
  obtain r1 s1 where d1: "run_day m d (s, g1) = (r1, s1, g1\<lparr>calls := calls g1 + k\<rparr>)"
    using g1 by (cases "run_day m d (s, g1)") auto
  with r st g2 have d2: "run_day m d (s, g2) = (r1, s1, g2\<lparr>calls := calls g2 + k\<rparr>)"
    by (cases "run_day m d (s, g2)") auto
  show ?case
  proof (cases r1)
    case (Inl e)
    with d1 d2 show ?thesis by simp
  next
    case (Inr rec)
    have "\<forall>i<length ds. draws (g1\<lparr>calls := calls g1 + k\<rparr>) (calls (g1\<lparr>calls := calls g1 + k\<rparr>) + i) =
            draws (g2\<lparr>calls := calls g2 + k\<rparr>) (calls (g2\<lparr>calls := calls g2 + k\<rparr>) + i)"
    proof (intro allI impI)
      fix i assume "i < length ds"
      with k have "k + i < length (d # ds)" by simp
      with Cons.prems have "draws g1 (calls g1 + (k + i)) = draws g2 (calls g2 + (k + i))"
        by blast
      then show "draws (g1\<lparr>calls := calls g1 + k\<rparr>) (calls (g1\<lparr>calls := calls g1 + k\<rparr>) + i) =
            draws (g2\<lparr>calls := calls g2 + k\<rparr>) (calls (g2\<lparr>calls := calls g2 + k\<rparr>) + i)"
        by (simp add: add.assoc)
    qed
    from Cons.IH [OF this, of "acc @ [rec]" s1] Inr d1 d2 show ?thesis by simp
  qed
qed

lemma run_agree:
  assumes "\<forall>i<nat (b - a + 1). draws g1 (calls g1 + i) = draws g2 (calls g2 + i)"
  shows "fst (run s0 a b m h f g1) = fst (run s0 a b m h f g2) \<and>
         fst (snd (run s0 a b m h f g1)) = fst (snd (run s0 a b m h f g2))"
proof -
  define s1 where "s1 = (case h of None \<Rightarrow> s0
      | Some x \<Rightarrow> s0\<lparr>cost_calc := (cost_calc s0)
           \<lparr>holding_rate := unit_cost (pd_policy (product_data s0)) * x / 365\<rparr>\<rparr>)"
  define o2 where "o2 = (case f of None \<Rightarrow> Inr s1 | Some sid \<Rightarrow> override_supplier s1 sid)"
  have run: "run s0 a b m h f g =
     (case o2 of
           Inl e \<Rightarrow> (Inl e, s1, g)
         | Inr s2 \<Rightarrow>
             (case validate_date_range (pd_forecast (product_data s2)) a b of
                Inl e \<Rightarrow> (Inl e, s2, g)
              | Inr _ \<Rightarrow>
                  (case init_stock_state s2 a of
                     Inl e \<Rightarrow> (Inl e, s2, g)
                   | Inr s3 \<Rightarrow>
                       (case run_loop m [a..b] [] (s3, g) of
                          (Inl e, sg) \<Rightarrow> (Inl e, sg)
                        | (Inr results, s4, g') \<Rightarrow> (compile_results s4 results, s4, g')))))" for g
    unfolding run_def s1_def o2_def Let_def by (rule refl)
  show ?thesis
  proof (cases o2)
    case (Inl e)
    then show ?thesis by (simp add: run)
  next
    case o: (Inr s2)
    show ?thesis
    proof (cases "validate_date_range (pd_forecast (product_data s2)) a b")
      case (Inl e)
      with o show ?thesis by (simp add: run)
    next
      case v: (Inr u)
      show ?thesis
      proof (cases "init_stock_state s2 a")
        case (Inl e)
        with o v show ?thesis by (simp add: run)
      next
        case i: (Inr s3)
        have "\<forall>i<length [a..b]. draws g1 (calls g1 + i) = draws g2 (calls g2 + i)"
          using assms by simp
        from run_loop_agree [OF this, of m "[]" s3]
        obtain rl s4 ga gb where l1: "run_loop m [a..b] [] (s3, g1) = (rl, s4, ga)"
          and l2: "run_loop m [a..b] [] (s3, g2) = (rl, s4, gb)"
          by (cases "run_loop m [a..b] [] (s3, g1)"; cases "run_loop m [a..b] [] (s3, g2)") auto
        from o v i l1 have "run s0 a b m h f g1 =
            (case rl of Inl e \<Rightarrow> (Inl e, s4, ga) | Inr rs \<Rightarrow> (compile_results s4 rs, s4, ga))"
          by (simp add: run split: sum.splits)
        moreover from o v i l2 have "run s0 a b m h f g2 =
            (case rl of Inl e \<Rightarrow> (Inl e, s4, gb) | Inr rs \<Rightarrow> (compile_results s4 rs, s4, gb))"
          by (simp add: run split: sum.splits)
        ultimately show ?thesis by (cases rl) simp_all
      qed
    qed
  qed
qed

subsection \<open>What a returned result implies\<close>

lemma validate_date_range_Inr:
  assumes "validate_date_range fc a b = Inr u"
  shows "fc \<noteq> [] \<and> Min (set (map fst fc)) \<le> a \<and> b \<le> Max (set (map fst fc))"
proof -
  let ?lo = "Min (set (map fst fc))" and ?hi = "Max (set (map fst fc))"
  have ne: "fc \<noteq> []"
  proof
    assume "fc = []"
    with assms show False by (simp add: validate_date_range_def)
  qed
  have "\<not> (a < ?lo \<or> ?hi < b)"
  proof
    assume "a < ?lo \<or> ?hi < b"
    with ne have "validate_date_range fc a b =
        Inl (ValueError ''Simulation range is outside forecast range'')"
      unfolding validate_date_range_def Let_def by (simp only: if_False if_True)
    with assms show False by simp
  qed
  then have "?lo \<le> a" "b \<le> ?hi" by (simp_all only: not_less de_Morgan_disj)
  with ne show ?thesis by (intro conjI)
qed

lemma run_Inr_complete:
  assumes "fst (run s0 a b m h f g) = Inr res"
  shows "pd_forecast (product_data s0) \<noteq> [] \<and>
         Min (set (map fst (pd_forecast (product_data s0)))) \<le> a \<and>
         b \<le> Max (set (map fst (pd_forecast (product_data s0)))) \<and>
         a \<le> b \<and>
         a \<in> fst ` set (pd_ledger (product_data s0)) \<and>
         (\<forall>d\<in>{a..b}. m d = None \<longrightarrow> d \<in> fst ` set (pd_forecast (product_data s0))) \<and>
         map rec_date (timeline res) = [a..b]"
proof -
  obtain s' g' where run: "run s0 a b m h f g = (Inr res, s', g')"
    using assms by (cases "run s0 a b m h f g") auto
  from run_shape [OF run] obtain s3 rl where
    pd: "product_data s3 = product_data s0"
    and v: "validate_date_range (pd_forecast (product_data s0)) a b = Inr ()"
    and led: "a \<in> fst ` set (pd_ledger (product_data s0))"
    and loop: "run_loop m [a..b] [] (s3, g) = (rl, s', g')"
    and r: "Inr res = (case rl of Inl e \<Rightarrow> Inl e | Inr rs \<Rightarrow> compile_results s' rs)"
    by auto
  from r obtain rs where rl: "rl = Inr rs" and c: "compile_results s' rs = Inr res"
    by (cases rl) auto
  note cr = compile_results_Inr [OF c]
  from loop rl have "run_loop m [a..b] [] (s3, g) = (Inr rs, s', g')" by simp
  from run_loop_complete [OF this] have dates: "map rec_date rs = [a..b]"
    and dem: "\<forall>d\<in>set [a..b]. \<exists>v. get_daily_demand s3 d m = Inr v"
    by simp_all
  from cr dates have "[a..b] \<noteq> []" by auto
  then have le: "a \<le> b" by (cases "a \<le> b") simp_all
  have cover: "\<forall>d\<in>{a..b}. m d = None \<longrightarrow> d \<in> fst ` set (pd_forecast (product_data s0))"
  proof (intro ballI impI)
    fix d assume d: "d \<in> {a..b}" and none: "m d = None"
    from d have mem: "d \<in> set [a..b]" by simp
    from dem mem have "\<exists>v. get_daily_demand s3 d m = Inr v" by (rule bspec)
    then obtain x where "get_daily_demand s3 d m = Inr x" by blast
    from get_daily_demand_Inr [OF this] none pd
    have "(d, x) \<in> set (pd_forecast (product_data s0))" by simp
    then show "d \<in> fst ` set (pd_forecast (product_data s0))" by force
  qed
  from validate_date_range_Inr [OF v] le led cover cr dates show ?thesis by simp
qed

lemma run_unknown_supplier:
  assumes "sid \<notin> supplier_id ` set (all_suppliers s0)"
  shows "fst (run s0 a b m h (Some sid) g) = Inl (ValueError ''Supplier ID not found.'')"
proof -
  have "filter (\<lambda>r. supplier_id r = sid) (all_suppliers s0) = []"
    using assms by (auto simp add: filter_empty_conv)
  then have "override_supplier s sid = Inl (ValueError ''Supplier ID not found.'')"
    if "all_suppliers s = all_suppliers s0" for s
    using that by (simp add: override_supplier_def)
  then show ?thesis
    by (cases h) (simp_all add: run_def Let_def)
qed

subsection \<open>The cost accumulator\<close>

lemma cost_accumulation:
  "total_holding (update_costs cc c so) = total_holding cc + of_int c * holding_rate cc"
  "total_stockout (update_costs cc c so) = total_stockout cc + of_int so * stockout_penalty cc"
  "total_ordering (update_costs cc c so) = total_ordering cc"
  "total_ordering (add_order_cost cc) = total_ordering cc + order_cost cc"
  "total_holding (add_order_cost cc) = total_holding cc"
  "total_stockout (add_order_cost cc) = total_stockout cc"
  by (simp_all add: update_costs_def add_order_cost_def)

lemma CostCalculator_init_holding_rate:
  "holding_rate (CostCalculator_init r oc sp) = 1 / 5"
  by (simp add: CostCalculator_init_def)

lemma BusinessDay_add_weekend:
  assumes "4 < weekday d" and "1 \<le> n"
  shows "BusinessDay_add d n = d + (7 - weekday d) + (n - 1) + 2 * ((n - 1) div 5)"
proof -
  define w where "w = weekday d"
  define q where "q = n div 5"
  define r where "r = n mod 5"
  have w: "4 < w" using assms(1) by (simp add: w_def)
  have r: "0 \<le> r" "r < 5" by (simp_all add: r_def)
  have n: "n = 5 * q + r" by (simp add: q_def r_def)
  have adj: "adjust_ndays n w q = (if r = 0 then 4 - w else (7 - w) + (r - 1))"
    using w r n assms(2) by (simp add: adjust_ndays_def Let_def)
  have dv: "(n - 1) div 5 = (if r = 0 then q - 1 else q)"
  proof (cases "r = 0")
    case True
    then have "n - 1 = 5 * (q - 1) + 4" using n by simp
    then have "(n - 1) div 5 = q - 1" by presburger
    with True show ?thesis by simp
  next
    case False
    with r have "n - 1 = 5 * q + (r - 1)" "0 \<le> r - 1" "r - 1 < 5" using n by simp_all
    then have "(n - 1) div 5 = q" by presburger
    with False show ?thesis by simp
  qed
  have "BusinessDay_add d n = d + (7 * q + adjust_ndays n w q)"
    by (simp add: BusinessDay_add_def Let_def w_def q_def)
  also have "\<dots> = d + (7 * q + (if r = 0 then 4 - w else (7 - w) + (r - 1)))"
    by (simp only: adj)
  also have "\<dots> = d + (7 - w) + (n - 1) + 2 * (if r = 0 then q - 1 else q)"
    using n by simp
  also have "\<dots> = d + (7 - w) + (n - 1) + 2 * ((n - 1) div 5)"
    by (simp only: dv)
  finally show ?thesis by (simp only: w_def)
qed

lemma run_day_consumption:
  assumes "run_day m d (s, g) = (Inr rec, s', g')"
  shows "rec_inventory rec = max (current_stock (process_order_arrivals s d) - rec_demand rec) 0 \<and>
         rec_stockout rec = max (rec_demand rec - current_stock (process_order_arrivals s d)) 0 \<and>
         current_stock s' = rec_inventory rec"
  using assms
  by (cases "get_daily_demand s d m")
     (auto simp add: run_day_cases Let_def record_daily_result_def check_reorder_point_fields)

subsection \<open>At most one order in a run\<close>

lemma run_day_one_order:
  assumes day: "run_day m d sg = (r, s1, g1)"
  shows "(order_mgr s1 = order_mgr (fst sg) \<and>
          total_ordering (cost_calc s1) = total_ordering (cost_calc (fst sg))) \<or>
         (pending_orders (order_mgr (fst sg)) = [] \<and> pending_orders (order_mgr s1) \<noteq> [] \<and>
          total_ordering (cost_calc s1) =
            total_ordering (cost_calc (fst sg)) + order_cost (cost_calc (fst sg)))"
proof (cases sg)
  case (Pair s g)
  show ?thesis
  proof (cases r)
    case (Inl e)
    with day Pair show ?thesis
      using run_day_Inl_state [of m d s g e s1 g1] by simp
  next
    case (Inr rec)
    with day Pair obtain s2 where s2: "order_mgr s2 = order_mgr s" "cost_calc s2 = cost_calc s"
      and s1: "order_mgr s1 = order_mgr (fst (check_reorder_point s2 d g))"
        "total_ordering (cost_calc s1) = total_ordering (cost_calc (fst (check_reorder_point s2 d g)))"
      using run_day_after_check [of m d s g rec s1 g1] by auto
    show ?thesis
    proof (cases "current_stock s2 \<le> rop s2 \<and> pending_orders (order_mgr s2) = []")
      case False
      then have "check_reorder_point s2 d g = (s2, g)" by (rule check_reorder_point_blocked)
      with s1 s2 Pair show ?thesis by simp
    next
      case True
      show ?thesis
      proof (cases "om_reliability (order_mgr s2) < draws g (calls g)")
        case fail: True
        with True have "fst (check_reorder_point s2 d g) = s2"
          by (simp add: check_reorder_point_attempt)
        with s1 s2 Pair show ?thesis by simp
      next
        case ok: False
        with True have "pending_orders (order_mgr (fst (check_reorder_point s2 d g))) \<noteq> []"
          and "total_ordering (cost_calc (fst (check_reorder_point s2 d g))) =
                total_ordering (cost_calc s2) + order_cost (cost_calc s2)"
          by (simp_all add: check_reorder_point_attempt add_order_cost_def)
        with s1 s2 True Pair show ?thesis by simp
      qed
    qed
  qed
qed

lemma run_loop_one_order:
  "run_loop m ds acc sg = (r, s', g') \<Longrightarrow>
     total_ordering (cost_calc s') = total_ordering (cost_calc (fst sg)) \<or>
     total_ordering (cost_calc s') =
       total_ordering (cost_calc (fst sg)) + order_cost (cost_calc (fst sg))"
proof (induction ds arbitrary: acc sg)
  case Nil
  then show ?case by auto
next
  case (Cons d ds)
  obtain r1 s1 g1 where day: "run_day m d sg = (r1, s1, g1)"
    by (cases "run_day m d sg") auto
  note step = run_day_one_order [OF day]
  note oc = run_day_order_cost [OF day]
  show ?case
  proof (cases r1)
    case (Inl e)
    with day Cons.prems have "s' = s1" by simp
    with step show ?thesis by auto
  next
    case (Inr rec)
    with day Cons.prems have loop: "run_loop m ds (acc @ [rec]) (s1, g1) = (r, s', g')"
      by simp
    from step show ?thesis
    proof
      assume same: "order_mgr s1 = order_mgr (fst sg) \<and>
          total_ordering (cost_calc s1) = total_ordering (cost_calc (fst sg))"
      from Cons.IH [OF loop] same oc show ?thesis by simp
    next
      assume placed: "pending_orders (order_mgr (fst sg)) = [] \<and>
          pending_orders (order_mgr s1) \<noteq> [] \<and>
          total_ordering (cost_calc s1) =
            total_ordering (cost_calc (fst sg)) + order_cost (cost_calc (fst sg))"
      then have "pending_orders (order_mgr (fst (s1, g1))) \<noteq> []" by simp
      from run_loop_blocked [OF loop this] placed show ?thesis by simp
    qed
  qed
qed

lemma run_one_order:
  assumes run: "run s0 a b m h f g = (r, s', g')"
  shows "order_cost (cost_calc s') = order_cost (cost_calc s0) \<and>
         (total_ordering (cost_calc s') = total_ordering (cost_calc s0) \<or>
          total_ordering (cost_calc s') = total_ordering (cost_calc s0) + order_cost (cost_calc s0))"
  using run_shape [OF run]
proof
  assume "\<exists>e. r = Inl e \<and> g' = g \<and>
            product_data s' = product_data s0 \<and>
            order_cost (cost_calc s') = order_cost (cost_calc s0) \<and>
            total_ordering (cost_calc s') = total_ordering (cost_calc s0) \<and>
            (pending_orders (order_mgr s') = pending_orders (order_mgr s0) \<or>
             pending_orders (order_mgr s') = [])"
  then show ?thesis by blast
next
  assume "\<exists>s3 rl. product_data s3 = product_data s0 \<and>
            order_cost (cost_calc s3) = order_cost (cost_calc s0) \<and>
            total_ordering (cost_calc s3) = total_ordering (cost_calc s0) \<and>
            (pending_orders (order_mgr s3) = pending_orders (order_mgr s0) \<or>
             pending_orders (order_mgr s3) = []) \<and>
            (f = None \<longrightarrow> order_mgr s3 = order_mgr s0) \<and>
            validate_date_range (pd_forecast (product_data s0)) a b = Inr () \<and>
            a \<in> fst ` set (pd_ledger (product_data s0)) \<and>
            run_loop m [a..b] [] (s3, g) = (rl, s', g') \<and>
            r = (case rl of Inl e \<Rightarrow> Inl e | Inr rs \<Rightarrow> compile_results s' rs)"
  then obtain s3 rl where oc: "order_cost (cost_calc s3) = order_cost (cost_calc s0)"
    and tot: "total_ordering (cost_calc s3) = total_ordering (cost_calc s0)"
    and loop: "run_loop m [a..b] [] (s3, g) = (rl, s', g')"
    by blast
  from run_loop_one_order [OF loop] run_loop_order_cost [OF loop] oc tot
  show ?thesis by simp
qed

section \<open>Properties of the dashboard simulator (sim.py)\<close>

lemma simulate_day_row:
  "fst (simulate_day policy supplier fc d st) = row \<Longrightarrow>
     row_date row = d \<and>
     opening_stock row = fst st + sum_list (map snd (filter (\<lambda>p. fst p = d) (snd st))) \<and>
     row_demand row = lookup_demand fc d \<and>
     sold row = min (opening_stock row) (row_demand row) \<and>
     unmet_demand row = max (row_demand row - opening_stock row) 0 \<and>
     closing_stock row = max (opening_stock row - row_demand row) 0 \<and>
     fst (snd (simulate_day policy supplier fc d st)) = closing_stock row"
  by (auto simp add: simulate_day_def Let_def)

lemma simulate_day_pending:
  "snd (snd (simulate_day policy supplier fc d st)) =
     (let pending1 = filter (\<lambda>p. d < fst p) (snd st)
      in if closing_stock (fst (simulate_day policy supplier fc d st)) < reorder_point policy
            \<and> pending1 = []
         then [(d + adjusted_lead_time supplier, max (eoq policy) (MOQ supplier))]
         else pending1)"
  by (simp add: simulate_day_def Let_def)

lemma simulate_day_pending_le1:
  assumes "length (snd st) \<le> 1"
  shows "length (snd (snd (simulate_day policy supplier fc d st))) \<le> 1"
proof -
  have "length (filter (\<lambda>p. d < fst p) (snd st)) \<le> 1"
    using order_trans [OF length_filter_le assms] .
  then show ?thesis
    by (simp add: simulate_day_pending Let_def)
qed

lemma simulate_loop_pending_le1:
  "length (snd st) \<le> 1 \<Longrightarrow>
     length (snd (snd (simulate_loop policy supplier fc ds ledger st))) \<le> 1"
proof (induction ds arbitrary: ledger st)
  case Nil
  then show ?case by simp
next
  case (Cons d ds)
  obtain row st1 where day: "simulate_day policy supplier fc d st = (row, st1)"
    by (cases "simulate_day policy supplier fc d st") auto
  have "length (snd st1) \<le> 1"
    using simulate_day_pending_le1 [OF Cons.prems, of policy supplier fc d] day by simp
  from Cons.IH [OF this] day show ?case by simp
qed

lemma simulate_loop_closing:
  "\<forall>row\<in>set ledger. 0 \<le> closing_stock row \<Longrightarrow>
     \<forall>row\<in>set (fst (simulate_loop policy supplier fc ds ledger st)). 0 \<le> closing_stock row"
proof (induction ds arbitrary: ledger st)
  case Nil
  then show ?case by simp
next
  case (Cons d ds)
  obtain row st1 where day: "simulate_day policy supplier fc d st = (row, st1)"
    by (cases "simulate_day policy supplier fc d st") auto
  then have "fst (simulate_day policy supplier fc d st) = row" by simp
  from simulate_day_row [OF this] have "0 \<le> closing_stock row" by simp
  with Cons.prems have "\<forall>r\<in>set (ledger @ [row]). 0 \<le> closing_stock r" by auto
  from Cons.IH [OF this] day show ?case by simp
qed

lemma simulate_product_closing:
  "\<forall>row\<in>set (snd (simulate_product safety_term ld pid params)). 0 \<le> closing_stock row"
proof (cases "simulate_product_try safety_term ld pid params")
  case (Inl e)
  then show ?thesis by (simp add: simulate_product_def)
next
  case (Inr ledger)
  then obtain policy supplier fc ds st where
    "ledger = fst (simulate_loop policy supplier fc ds [] st)"
    by (auto simp add: simulate_product_try_def Let_def split: sum.splits)
  moreover have "\<forall>row\<in>set (fst (simulate_loop policy supplier fc ds [] st)). 0 \<le> closing_stock row"
    by (rule simulate_loop_closing) simp
  ultimately show ?thesis using Inr by (simp add: simulate_product_def)
qed

lemma simulate_day_opening_nonneg:
  assumes "0 \<le> fst st" and "\<forall>p\<in>set (snd st). 0 \<le> snd p"
  shows "0 \<le> opening_stock (fst (simulate_day policy supplier fc d st))"
proof -
  have "0 \<le> sum_list (map snd (filter (\<lambda>p. fst p = d) (snd st)))"
    using assms(2) by (intro sum_list_nonneg) auto
  with assms(1) show ?thesis
    using simulate_day_row [OF refl, of policy supplier fc d st] by simp
qed

lemma lookup_demand_missing:
  assumes "d \<notin> f_date ` set fc"
  shows "lookup_demand fc d = 0"
proof -
  have "filter (\<lambda>r. f_date r = d) fc = []"
    using assms by (auto simp add: filter_empty_conv)
  then show ?thesis by (simp add: lookup_demand_def)
qed

lemma simulate_day_restock:
  "restock_qty (fst (simulate_day policy supplier fc d st)) =
     (if closing_stock (fst (simulate_day policy supplier fc d st)) < reorder_point policy
         \<and> filter (\<lambda>p. d < fst p) (snd st) = []
      then max (eoq policy) (MOQ supplier) else 0)"
  by (simp add: simulate_day_def Let_def)

lemma simulate_product_no_policy:
  assumes "pid \<notin> policy_product_id ` set (policies ld)"
  shows "simulate_product safety_term ld pid params =
           (Some (IndexError ''single positional indexer is out-of-bounds''), [])"
proof -
  have "filter (\<lambda>p. policy_product_id p = pid) (policies ld) = []"
    using assms by (auto simp add: filter_empty_conv)
  then show ?thesis
    by (simp add: simulate_product_def simulate_product_try_def iloc0_def)
qed

text \<open>The dashboard's day removes every order due on or before the day: an order
  left pending by a day that places none is due later.\<close>

lemma simulate_day_arrivals_removed:
  assumes "\<not> (closing_stock (fst (simulate_day policy supplier fc d st)) < reorder_point policy
              \<and> filter (\<lambda>p. d < fst p) (snd st) = [])"
  shows "\<forall>p\<in>set (snd (snd (simulate_day policy supplier fc d st))). d < fst p"
  using assms by (auto simp add: simulate_day_pending Let_def)

lemma dashboard_holding_cost:
  "holding_cost (fst (simulate_day policy supplier fc d st)) =
     of_int (closing_stock (fst (simulate_day policy supplier fc d st))) *
       (unit_cost policy * 0.20 / 365)"
  by (simp add: simulate_day_def Let_def HOLDING_RATE_DAILY_def)

subsection \<open>Binary64 rounding of integers\<close>

lemma round_half_even_of_int: "round_half_even (of_int m) = m"
  by (simp add: round_half_even_def)

lemma pow2_nonpos: "e \<le> 0 \<Longrightarrow> pow2 e = 1 / 2 ^ nat (- e)"
  by (cases "e = 0") (simp_all add: pow2_def)

lemma double_round_of_int:
  assumes "\<bar>n\<bar> < 2 ^ 53"
  shows "double_round (of_int n) = of_int n"
proof (cases "n = 0")
  case True
  then show ?thesis by (simp add: double_round_def)
next
  case False
  define a where "a = nat \<bar>n\<bar>"
  define k where "k = floorlog 2 a"
  have a: "0 < a" "a < 2 ^ 53" "int a = \<bar>n\<bar>"
    using False assms by (simp_all add: a_def nat_less_iff)
  from floorlog_bounds [of a 2] a(1) have lo: "2 ^ (k - 1) \<le> a" and hi: "a < 2 ^ k"
    by (simp_all add: k_def)
  have k1: "1 \<le> k" using a(1) by (simp add: k_def floorlog_def)
  from lo a(2) have pw: "(2::nat) ^ (k - 1) < 2 ^ 53" by (rule le_less_trans)
  have "k - 1 < 53" by (rule power_less_imp_less_exp [of 2]) (simp, rule pw)
  then have k53: "k \<le> 53" by simp
  define j where "j = 53 - k"
  have abs: "\<bar>real_of_int n\<bar> = real a" using a(3) by (metis of_int_abs of_int_of_nat_eq)
  have ge1: "1 \<le> \<bar>real_of_int n\<bar>" using a(1) abs by simp
  have fl: "nat \<lfloor>\<bar>real_of_int n\<bar>\<rfloor> = a" by (simp add: abs)
  have bin: "binade \<bar>real_of_int n\<bar> = int k - 1"
    using ge1 by (simp add: binade_def fl k_def)
  have ex: "max (binade \<bar>real_of_int n\<bar> - 52) (- 1074) = - int j"
    using k1 k53 by (simp add: bin j_def)
  have u: "pow2 (max (binade \<bar>real_of_int n\<bar> - 52) (- 1074)) = 1 / 2 ^ j"
    by (simp add: ex pow2_nonpos)
  have q: "\<bar>real_of_int n\<bar> / (1 / 2 ^ j) = of_int (int a * 2 ^ j)"
    by (simp add: abs)
  have "double_round (real_of_int n) =
      (let a = \<bar>real_of_int n\<bar>; u = pow2 (max (binade a - 52) (- 1074))
       in sgn (real_of_int n) * (of_int (round_half_even (a / u)) * u))"
    unfolding double_round_def by (simp only: of_int_eq_0_iff False if_False)
  also have "\<dots> =
      sgn (real_of_int n) * (of_int (round_half_even (of_int (int a * 2 ^ j))) * (1 / 2 ^ j))"
    by (simp only: Let_def u q)
  also have "\<dots> = sgn (real_of_int n) * (of_int (int a * 2 ^ j) * (1 / 2 ^ j))"
    by (simp only: round_half_even_of_int)
  also have "\<dots> = sgn (real_of_int n) * real a" by simp
  also have "\<dots> = sgn (real_of_int n) * \<bar>real_of_int n\<bar>" by (simp only: abs)
  also have "\<dots> = real_of_int n" by (simp add: sgn_mult_abs)
  finally show ?thesis .
qed

lemma adjusted_lead_time_full_reliability:
  assumes "reliability supplier = 100" and "\<bar>lead_time supplier\<bar> < 2 ^ 53"
  shows "adjusted_lead_time supplier = lead_time supplier"
proof -
  have one: "double_round 1 = 1"
    using double_round_of_int [of 1] by simp
  have "fdiv (fsub 100 (reliability supplier)) 100 = 0"
    using assms(1) by (simp add: fsub_def fdiv_def double_round_def)
  then have "fadd 1 (fdiv (fsub 100 (reliability supplier)) 100) = 1"
    by (simp add: fadd_def one)
  then have "fmul (of_int (lead_time supplier)) (fadd 1 (fdiv (fsub 100 (reliability supplier)) 100)) =
      of_int (lead_time supplier)"
    using double_round_of_int [OF assms(2)] by (simp add: fmul_def)
  then show ?thesis
    by (simp add: adjusted_lead_time_def Let_def py_int_def)
qed

lemma adjusted_lead_time_25_84:
  "adjusted_lead_time (scenario_supplier\<lparr>lead_time := 25, reliability := 84\<rparr>) = 28"
  by code_simp

lemma adjusted_lead_time_2_90:
  "adjusted_lead_time (scenario_supplier\<lparr>reliability := 90\<rparr>) = 2"
  by code_simp

lemma lookup_demand_first:
  "filter (\<lambda>r. f_date r = d) fc = x # xs \<Longrightarrow> lookup_demand fc d = predicted_units x"
  by (simp add: lookup_demand_def)

text \<open>With a single forecast row the standard deviation is NaN: the initial stock
  cannot be computed and the simulation returns the empty frame.\<close>

lemma simulate_product_single_forecast_row:
  "simulate_product (\<lambda>_ _ _. 5)
     (scenario_loader\<lparr>forecast := [\<lparr>f_date = 739342, f_product_id = ''P1'', predicted_units = 20\<rparr>]\<rparr>)
     ''P1'' None =
   (Some (ValueError ''cannot convert float NaN to integer''), [])"
  by code_simp

section \<open>The claims\<close>

subsection \<open>C1\<close>

text \<open>
  C1 fails in the what-if engine. The scenario run with a demand of 120 on each of the
  five days places its order on the first day; the order arrives on the third day
  (ordinal 739344), when its 200 units are added to the stock once, and it is still in
  the pending list on the fourth and fifth day and after the run: every record counts
  one pending order. With the list never emptied, the stock of 0 on the last two days
  triggers no new attempt (the generator was drawn from once in the whole run).
\<close>

theorem arrived_order_not_removed:
  "(case run scenario_sim 739342 739346 (\<lambda>_. Some 120) None None (generator 0) of
      (Inl e, s', g') \<Rightarrow> False
    | (Inr res, s', g') \<Rightarrow>
        map rec_inventory (timeline res) = [0, 0, 80, 0, 0]
        \<and> map rec_stockout (timeline res) = [60, 120, 0, 40, 120]
        \<and> map rec_pending_orders (timeline res) = [1, 1, 1, 1, 1]
        \<and> pending_orders (order_mgr s') =
            [\<lparr>arrival_date = 739344, quantity = 200, status = ''pending''\<rparr>]
        \<and> calls g' = 1)"
  by (simp add: scenario_defs engine_defs upto_rec1)

subsection \<open>C2\<close>

text \<open>
  C2. At most one order is pending at any time, in both simulators. In the what-if
  engine, from a simulator holding at most one order (a new one holds none), the
  pending list has at most one element after any number of days of the loop, however the
  loop ends, every record of a run reports at most one pending order, and the reorder
  check does nothing when an order is pending. In the dashboard simulator, whose loop
  starts with no order, the pending list has at most one element after any number of
  days, and a day that still has a pending order places none.
\<close>

theorem at_most_one_pending_order:
  "pending_orders (order_mgr (InventorySimulator_init pid pd sups hr fs)) = []
   \<and> (length (pending_orders (order_mgr (fst sg))) \<le> 1 \<longrightarrow>
        length (pending_orders (order_mgr (fst (snd (run_loop m ds acc sg))))) \<le> 1)
   \<and> (length (pending_orders (order_mgr s0)) \<le> 1 \<longrightarrow>
        length (pending_orders (order_mgr (fst (snd (run s0 a b m h f g))))) \<le> 1
        \<and> (\<forall>res. fst (run s0 a b m h f g) = Inr res \<longrightarrow>
              (\<forall>rec\<in>set (timeline res). rec_pending_orders rec \<le> 1)))
   \<and> (pending_orders (order_mgr s) \<noteq> [] \<longrightarrow> check_reorder_point s day g = (s, g))
   \<and> length (snd (snd (simulate_loop policy supplier fc days ledger (stock0, [])))) \<le> 1
   \<and> (filter (\<lambda>p. d < fst p) (snd st) \<noteq> [] \<longrightarrow>
        snd (snd (simulate_day policy supplier fc d st)) = filter (\<lambda>p. d < fst p) (snd st))"
proof (intro conjI impI)
  show "pending_orders (order_mgr (InventorySimulator_init pid pd sups hr fs)) = []"
    by (simp add: InventorySimulator_init_def OrderManager_init_def Let_def)
next
  assume le: "length (pending_orders (order_mgr (fst sg))) \<le> 1"
  obtain r s' g' where loop: "run_loop m ds acc sg = (r, s', g')"
    by (cases "run_loop m ds acc sg") auto
  from run_loop_pending_le1 [OF loop le] loop
  show "length (pending_orders (order_mgr (fst (snd (run_loop m ds acc sg))))) \<le> 1" by simp
next
  assume le: "length (pending_orders (order_mgr s0)) \<le> 1"
  obtain r s' g' where run: "run s0 a b m h f g = (r, s', g')"
    by (cases "run s0 a b m h f g") auto
  from run_pending_le1 [OF run le] run
  show "length (pending_orders (order_mgr (fst (snd (run s0 a b m h f g))))) \<le> 1"
    by simp
  from run_pending_le1 [OF run le] run
  show "\<forall>res. fst (run s0 a b m h f g) = Inr res \<longrightarrow>
              (\<forall>rec\<in>set (timeline res). rec_pending_orders rec \<le> 1)"
    by simp
next
  assume "pending_orders (order_mgr s) \<noteq> []"
  then show "check_reorder_point s day g = (s, g)"
    by (simp add: check_reorder_point_blocked)
next
  show "length (snd (snd (simulate_loop policy supplier fc days ledger (stock0, [])))) \<le> 1"
    by (rule simulate_loop_pending_le1) simp
next
  assume "filter (\<lambda>p. d < fst p) (snd st) \<noteq> []"
  then show "snd (snd (simulate_day policy supplier fc d st)) = filter (\<lambda>p. d < fst p) (snd st)"
    by (simp add: simulate_day_pending)
qed

theorem at_most_one_pending_order_witness:
  "length (pending_orders (order_mgr (fst (snd
      (run_loop Map.empty [739342, 739343, 739344] [] (scenario_sim\<lparr>current_stock := 60\<rparr>, generator 0)))))) = 1
   \<and> (case run scenario_sim 739342 739346 Map.empty None None (generator 0) of
        (Inl e, s', g') \<Rightarrow> False
      | (Inr res, s', g') \<Rightarrow>
          length (pending_orders (order_mgr s')) = 1
          \<and> map rec_pending_orders (timeline res) = [1, 1, 1, 1, 1])
   \<and> check_reorder_point
        (scenario_sim\<lparr>order_mgr := (order_mgr scenario_sim)
           \<lparr>pending_orders := [\<lparr>arrival_date = 739344, quantity = 200, status = ''pending''\<rparr>]\<rparr>\<rparr>)
        739343 (generator 0) =
      (scenario_sim\<lparr>order_mgr := (order_mgr scenario_sim)
           \<lparr>pending_orders := [\<lparr>arrival_date = 739344, quantity = 200, status = ''pending''\<rparr>]\<rparr>\<rparr>,
       generator 0)
   \<and> snd (snd (simulate_loop scenario_policy scenario_supplier [] [739342, 739343] [] (40, []))) =
       [(739345, 200)]
   \<and> snd (snd (simulate_day scenario_policy scenario_supplier [] 739343 (40, [(739344, 200)]))) =
       [(739344, 200)]"
proof -
  let ?s = "scenario_sim\<lparr>current_stock := 60\<rparr>"
  let ?sp = "scenario_sim\<lparr>order_mgr := (order_mgr scenario_sim)
           \<lparr>pending_orders := [\<lparr>arrival_date = 739344, quantity = 200, status = ''pending''\<rparr>]\<rparr>\<rparr>"
  let ?st = "(40, [(739344, 200)]) :: int \<times> (date \<times> int) list"
  have h1: "length (pending_orders (order_mgr (fst (?s, generator 0)))) \<le> 1"
    by (simp add: scenario_defs)
  have e1: "length (pending_orders (order_mgr (fst (snd
      (run_loop Map.empty [739342, 739343, 739344] [] (?s, generator 0)))))) = 1"
    by (simp add: scenario_defs engine_defs)
  have h2: "length (pending_orders (order_mgr scenario_sim)) \<le> 1"
    by (simp add: scenario_defs)
  have e2: "(case run scenario_sim 739342 739346 Map.empty None None (generator 0) of
        (Inl e, s', g') \<Rightarrow> False
      | (Inr res, s', g') \<Rightarrow>
          length (pending_orders (order_mgr s')) = 1
          \<and> map rec_pending_orders (timeline res) = [1, 1, 1, 1, 1])"
    by (simp add: scenario_defs engine_defs upto_rec1)
  have h3: "pending_orders (order_mgr ?sp) \<noteq> []" by simp
  have e4: "snd (snd (simulate_loop scenario_policy scenario_supplier [] [739342, 739343] [] (40, []))) =
       [(739345, 200)]"
    by code_simp
  have h5: "filter (\<lambda>p. 739343 < fst p) (snd ?st) \<noteq> []" by simp
  from at_most_one_pending_order [where pid = "''P1''" and pd = scenario_data
      and sups = "[scenario_supplier]" and hr = None and fs = None
      and sg = "(?s, generator 0)" and m = Map.empty and ds = "[739342, 739343, 739344]"
      and acc = "[]" and ?s0.0 = scenario_sim and a = 739342 and b = 739346 and h = None
      and f = None and g = "generator 0" and s = ?sp and day = 739343
      and policy = scenario_policy and supplier = scenario_supplier and fc = "[]"
      and days = "[739342, 739343]" and ledger = "[]" and ?stock0.0 = 40 and d = 739343
      and st = ?st]
    h1 e1 h2 e2 h3 e4 h5
  show ?thesis by simp
qed

subsection \<open>C3\<close>

text \<open>
  C3. The consumption step: the shortfall is \<open>max (d - s) 0\<close> and the stock left is
  \<open>max (s - d) 0\<close> in both simulators, \<open>s\<close> being the stock after the day's arrivals
  and \<open>d\<close> the day's demand; the dashboard simulator also computes the units sold,
  \<open>min s d\<close>. In the what-if engine the arrival step adds the quantities of the orders
  due that day, the record of a day holds the shortfall and the stock left of that sum
  and of the day's demand, and the stock left is the simulator's stock after the day.
  In the dashboard simulator the opening stock of the row is the incoming stock plus the
  quantities due that day, the demand is the one looked up in the forecast (the units
  of the first forecast row of the day), and the closing stock is the stock passed to
  the next day. The equations hold for every stock and demand, in particular for
  non-negative ones. Receiving non-negative quantities into a non-negative stock leaves
  it non-negative, and the stock at the end of a day is never negative: no record of a
  run of the what-if engine and no row of the dashboard's ledger has a negative closing
  stock.
\<close>

theorem consumption_step:
  "update_inventory s d =
     (max (d - current_stock s) 0, s\<lparr>current_stock := max (current_stock s - d) 0\<rparr>)
   \<and> current_stock (process_order_arrivals s day) =
       current_stock s +
         sum_list (map quantity (filter (\<lambda>ord. arrival_date ord = day)
                                   (pending_orders (order_mgr s))))
   \<and> (run_day m day (s, g) = (Inr rec, s', g') \<longrightarrow>
        rec_inventory rec = max (current_stock (process_order_arrivals s day) - rec_demand rec) 0
        \<and> rec_stockout rec = max (rec_demand rec - current_stock (process_order_arrivals s day)) 0
        \<and> current_stock s' = rec_inventory rec
        \<and> get_daily_demand s day m = Inr (rec_demand rec))
   \<and> (let row = fst (simulate_day policy supplier fc day st)
      in row_date row = day
         \<and> opening_stock row = fst st + sum_list (map snd (filter (\<lambda>p. fst p = day) (snd st)))
         \<and> row_demand row = lookup_demand fc day
         \<and> sold row = min (opening_stock row) (row_demand row)
         \<and> unmet_demand row = max (row_demand row - opening_stock row) 0
         \<and> closing_stock row = max (opening_stock row - row_demand row) 0
         \<and> fst (snd (simulate_day policy supplier fc day st)) = closing_stock row)
   \<and> (filter (\<lambda>r. f_date r = day) fc = x # xs \<longrightarrow> lookup_demand fc day = predicted_units x)
   \<and> (0 \<le> current_stock s \<and> (\<forall>ord\<in>set (pending_orders (order_mgr s)). 0 \<le> quantity ord)
        \<longrightarrow> 0 \<le> current_stock (process_order_arrivals s day))
   \<and> (0 \<le> fst st \<and> (\<forall>p\<in>set (snd st). 0 \<le> snd p)
        \<longrightarrow> 0 \<le> opening_stock (fst (simulate_day policy supplier fc day st)))
   \<and> (fst (run s0 a b m h f g) = Inr res \<longrightarrow> (\<forall>r\<in>set (timeline res). 0 \<le> rec_inventory r))
   \<and> (\<forall>row\<in>set (snd (simulate_product safety_term ld pid params)). 0 \<le> closing_stock row)"
proof (intro conjI impI)
  show "update_inventory s d =
     (max (d - current_stock s) 0, s\<lparr>current_stock := max (current_stock s - d) 0\<rparr>)"
    by (rule update_inventory_eq)
next
  show "current_stock (process_order_arrivals s day) =
       current_stock s +
         sum_list (map quantity (filter (\<lambda>ord. arrival_date ord = day)
                                   (pending_orders (order_mgr s))))"
    by (rule process_order_arrivals_stock)
next
  assume day: "run_day m day (s, g) = (Inr rec, s', g')"
  from run_day_consumption [OF day]
  show "rec_inventory rec = max (current_stock (process_order_arrivals s day) - rec_demand rec) 0"
    and "rec_stockout rec = max (rec_demand rec - current_stock (process_order_arrivals s day)) 0"
    and "current_stock s' = rec_inventory rec"
    by blast+
  from run_day_demand [OF day] show "get_daily_demand s day m = Inr (rec_demand rec)" by simp
next
  show "let row = fst (simulate_day policy supplier fc day st)
      in row_date row = day
         \<and> opening_stock row = fst st + sum_list (map snd (filter (\<lambda>p. fst p = day) (snd st)))
         \<and> row_demand row = lookup_demand fc day
         \<and> sold row = min (opening_stock row) (row_demand row)
         \<and> unmet_demand row = max (row_demand row - opening_stock row) 0
         \<and> closing_stock row = max (opening_stock row - row_demand row) 0
         \<and> fst (snd (simulate_day policy supplier fc day st)) = closing_stock row"
    using simulate_day_row [OF refl, of policy supplier fc day st] by (simp add: Let_def)
next
  assume "filter (\<lambda>r. f_date r = day) fc = x # xs"
  then show "lookup_demand fc day = predicted_units x" by (rule lookup_demand_first)
next
  assume "0 \<le> current_stock s \<and> (\<forall>ord\<in>set (pending_orders (order_mgr s)). 0 \<le> quantity ord)"
  then show "0 \<le> current_stock (process_order_arrivals s day)"
    by (simp add: process_order_arrivals_nonneg)
next
  assume "0 \<le> fst st \<and> (\<forall>p\<in>set (snd st). 0 \<le> snd p)"
  then show "0 \<le> opening_stock (fst (simulate_day policy supplier fc day st))"
    by (simp add: simulate_day_opening_nonneg)
next
  assume "fst (run s0 a b m h f g) = Inr res"
  then show "\<forall>r\<in>set (timeline res). 0 \<le> rec_inventory r" by (rule run_timeline_inventory)
next
  show "\<forall>row\<in>set (snd (simulate_product safety_term ld pid params)). 0 \<le> closing_stock row"
    by (rule simulate_product_closing)
qed

theorem consumption_step_witness:
  "update_inventory (scenario_sim\<lparr>current_stock := 60\<rparr>) 80 =
     (20, scenario_sim\<lparr>current_stock := 0\<rparr>)
   \<and> (case run_day (\<lambda>_. Some 250) 739344
          (scenario_sim\<lparr>current_stock := 30, order_mgr := (order_mgr scenario_sim)
             \<lparr>pending_orders := [\<lparr>arrival_date = 739344, quantity = 200, status = ''pending''\<rparr>]\<rparr>\<rparr>,
           generator 0) of
        (Inl e, s', g') \<Rightarrow> False
      | (Inr rec, s', g') \<Rightarrow>
          rec_demand rec = 250 \<and> rec_stockout rec = 20 \<and> rec_inventory rec = 0
          \<and> current_stock s' = 0)
   \<and> (let row = fst (simulate_day scenario_policy scenario_supplier
                       [\<lparr>f_date = 739342, f_product_id = ''P1'', predicted_units = 80\<rparr>]
                       739342 (60, [(739342, 200)]))
      in opening_stock row = 260 \<and> row_demand row = 80 \<and> sold row = 80
         \<and> unmet_demand row = 0 \<and> closing_stock row = 180)
   \<and> (let row = fst (simulate_day scenario_policy scenario_supplier
                       [\<lparr>f_date = 739342, f_product_id = ''P1'', predicted_units = 80\<rparr>]
                       739342 (60, []))
      in opening_stock row = 60 \<and> row_demand row = 80 \<and> sold row = 60
         \<and> unmet_demand row = 20 \<and> closing_stock row = 0)
   \<and> 0 \<le> current_stock (process_order_arrivals
          (scenario_sim\<lparr>current_stock := 30, order_mgr := (order_mgr scenario_sim)
             \<lparr>pending_orders := [\<lparr>arrival_date = 739344, quantity = 200, status = ''pending''\<rparr>]\<rparr>\<rparr>)
          739344)
   \<and> 0 \<le> opening_stock (fst (simulate_day scenario_policy scenario_supplier
                       [\<lparr>f_date = 739342, f_product_id = ''P1'', predicted_units = 80\<rparr>]
                       739342 (60, [(739342, 200)])))
   \<and> (case fst (run scenario_sim 739342 739346 (\<lambda>_. Some 120) None None (generator 0)) of
        Inl e \<Rightarrow> False
      | Inr res \<Rightarrow> length (timeline res) = 5 \<and> list_all (\<lambda>r. 0 \<le> rec_inventory r) (timeline res))
   \<and> length (snd (simulate_product (\<lambda>_ _ _. 5) scenario_loader ''P1'' None)) = 34
   \<and> list_all (\<lambda>row. 0 \<le> closing_stock row)
        (snd (simulate_product (\<lambda>_ _ _. 5) scenario_loader ''P1'' None))"
proof -
  let ?s = "scenario_sim\<lparr>current_stock := 60\<rparr>"
  let ?sa = "scenario_sim\<lparr>current_stock := 30, order_mgr := (order_mgr scenario_sim)
             \<lparr>pending_orders := [\<lparr>arrival_date = 739344, quantity = 200, status = ''pending''\<rparr>]\<rparr>\<rparr>"
  let ?fc = "[\<lparr>f_date = 739342, f_product_id = ''P1'', predicted_units = 80\<rparr>]"
  let ?st1 = "(60, [(739342, 200)]) :: int \<times> (date \<times> int) list"
  let ?st2 = "(60, []) :: int \<times> (date \<times> int) list"
  let ?day = "run_day (\<lambda>_. Some 250) 739344 (?sa, generator 0)"
  let ?run = "fst (run scenario_sim 739342 739346 (\<lambda>_. Some 120) None None (generator 0))"
  have stock: "current_stock ?s = 60" by simp
  have pend: "pending_orders (order_mgr ?s) = []" by (simp add: scenario_defs)
  have dayr: "(case ?day of (Inl e, s', g') \<Rightarrow> False | (Inr rec, s', g') \<Rightarrow> rec_demand rec = 250)"
    by (simp add: scenario_defs engine_defs)
  then obtain rec s' g' where day: "?day = (Inr rec, s', g')" and dem: "rec_demand rec = 250"
    by (cases ?day) (auto split: sum.splits)
  have arr: "current_stock (process_order_arrivals ?sa 739344) = 230"
    by (simp add: scenario_defs process_order_arrivals_def get_pending_orders_def)
  have len: "(case ?run of Inl e \<Rightarrow> False | Inr res \<Rightarrow> length (timeline res) = 5)"
    by (simp add: scenario_defs engine_defs upto_rec1)
  then obtain res where res: "?run = Inr res" and len5: "length (timeline res) = 5"
    by (cases ?run) auto
  have dash: "length (snd (simulate_product (\<lambda>_ _ _. 5) scenario_loader ''P1'' None)) = 34"
    by code_simp
  have look: "filter (\<lambda>r. f_date r = 739342) ?fc =
      \<lparr>f_date = 739342, f_product_id = ''P1'', predicted_units = 80\<rparr> # []"
    by simp
  note i1 = consumption_step [where s = ?s and d = 80 and day = 739342
      and policy = scenario_policy and supplier = scenario_supplier and fc = ?fc and st = ?st1
      and x = "\<lparr>f_date = 739342, f_product_id = ''P1'', predicted_units = 80\<rparr>" and xs = "[]"
      and ?s0.0 = scenario_sim and a = 739342 and b = 739346 and m = "\<lambda>_. Some 120"
      and h = None and f = None and g = "generator 0" and res = res
      and safety_term = "\<lambda>_ _ _. 5" and ld = scenario_loader and pid = "''P1''"
      and params = None]
  note i2 = consumption_step [where s = ?sa and day = 739344 and m = "\<lambda>_. Some 250"
      and g = "generator 0" and rec = rec and s' = s' and g' = g'
      and policy = scenario_policy and supplier = scenario_supplier and fc = ?fc and st = ?st2]
  note i3 = consumption_step [where day = 739342
      and policy = scenario_policy and supplier = scenario_supplier and fc = ?fc and st = ?st2
      and x = "\<lparr>f_date = 739342, f_product_id = ''P1'', predicted_units = 80\<rparr>" and xs = "[]"]
  from i1 stock have c1: "update_inventory ?s 80 = (20, scenario_sim\<lparr>current_stock := 0\<rparr>)"
    by simp
  from i2 day dem arr have c2: "rec_stockout rec = 20 \<and> rec_inventory rec = 0 \<and> current_stock s' = 0"
    by simp
  from i1 look have c3: "let row = fst (simulate_day scenario_policy scenario_supplier ?fc 739342 ?st1)
      in opening_stock row = 260 \<and> row_demand row = 80 \<and> sold row = 80
         \<and> unmet_demand row = 0 \<and> closing_stock row = 180"
    by (simp add: Let_def)
  from i3 look have c4: "let row = fst (simulate_day scenario_policy scenario_supplier ?fc 739342 ?st2)
      in opening_stock row = 60 \<and> row_demand row = 80 \<and> sold row = 60
         \<and> unmet_demand row = 20 \<and> closing_stock row = 0"
    by (simp add: Let_def)
  have nn1: "0 \<le> current_stock ?sa \<and> (\<forall>ord\<in>set (pending_orders (order_mgr ?sa)). 0 \<le> quantity ord)"
    by simp
  have nn2: "0 \<le> fst ?st1 \<and> (\<forall>p\<in>set (snd ?st1). 0 \<le> snd p)" by simp
  from i2 nn1 have c7: "0 \<le> current_stock (process_order_arrivals ?sa 739344)" by blast
  from i1 nn2 have c8: "0 \<le> opening_stock (fst (simulate_day scenario_policy scenario_supplier
      ?fc 739342 ?st1))"
    by blast
  from i1 res have c5: "\<forall>r\<in>set (timeline res). 0 \<le> rec_inventory r" by blast
  from i1 have c6: "\<forall>row\<in>set (snd (simulate_product (\<lambda>_ _ _. 5) scenario_loader ''P1'' None)).
      0 \<le> closing_stock row"
    by blast
  from c1 c2 c3 c4 c5 c6 c7 c8 day dem res len5 dash show ?thesis
    by (simp add: list_all_iff)
qed

subsection \<open>C4\<close>

text \<open>
  C4, as stated, fails for \<open>place_order\<close>: an order placed on Friday 2025-04-04
  (ordinal 739345) with lead time 2 and reliability 0.9 is stored with arrival on
  Tuesday 2025-04-08 (two business days on), while the date plus
  \<open>floor (2 * (1 + (1 - 0.9))) = 2\<close> calendar days is Sunday 2025-04-06.
\<close>

theorem place_order_arrival_counterexample:
  "fst (place_order (OrderManager_init scenario_supplier None) 739345 200 (generator 0)) =
     Inr ((OrderManager_init scenario_supplier None)
            \<lparr>pending_orders := [\<lparr>arrival_date = 739349, quantity = 200, status = ''pending''\<rparr>]\<rparr>)
   \<and> 739345 + \<lfloor>of_int (lead_time scenario_supplier) * (1 + (1 - reliability scenario_supplier))\<rfloor>
       = 739347"
  by (simp add: scenario_defs place_order_cases BusinessDay_add_def adjust_ndays_def weekday_def)

text \<open>
  C4, amended. A successful \<open>place_order\<close> of the what-if engine appends one order of
  quantity \<open>max requested MOQ\<close> whose arrival date is the order date plus the
  supplier's lead time in business days, with no reliability adjustment: from a
  Monday-to-Friday order date and a lead time \<open>n \<ge> 0\<close> that is \<open>n\<close> calendar days
  plus two for every weekend crossed, and from a Saturday or Sunday and \<open>n \<ge> 1\<close> it is
  the same count of \<open>n - 1\<close> business days from the following Monday. The
  reliability-adjusted lead time and the calendar-day arrival are the dashboard
  simulator's: an order it places has quantity \<open>max eoq MOQ\<close> and arrives
  \<open>adjusted_lead_time\<close> calendar days after the day, \<open>adjusted_lead_time\<close> being
  \<open>int (lead_time * (1 + (100 - reliability) / 100))\<close>, reliability in percent,
  evaluated in binary64 arithmetic. That is the lead time itself at reliability 100 (for
  a lead time of magnitude below \<open>2^53\<close>); it is not in general the floor of the
  exact product: for lead time 25 and reliability 84 it is 28, the exact product being
  29.
\<close>

theorem place_order_arrival:
  "(fst (place_order om d q g) = Inr om' \<longrightarrow>
      pending_orders om' = pending_orders om @
        [\<lparr>arrival_date = BusinessDay_add d (om_lead_time om), quantity = max q (moq om),
          status = ''pending''\<rparr>])
   \<and> (weekday d \<le> 4 \<and> 0 \<le> n \<longrightarrow> BusinessDay_add d n = d + n + 2 * ((weekday d + n) div 5))
   \<and> (4 < weekday d \<and> 1 \<le> n \<longrightarrow>
        BusinessDay_add d n = d + (7 - weekday d) + (n - 1) + 2 * ((n - 1) div 5))
   \<and> (closing_stock (fst (simulate_day policy supplier fc d st)) < reorder_point policy
        \<and> filter (\<lambda>p. d < fst p) (snd st) = [] \<longrightarrow>
      snd (snd (simulate_day policy supplier fc d st)) =
        [(d + adjusted_lead_time supplier, max (eoq policy) (MOQ supplier))])
   \<and> adjusted_lead_time supplier =
       py_int (fmul (of_int (lead_time supplier))
                 (fadd 1 (fdiv (fsub 100 (reliability supplier)) 100)))
   \<and> (reliability supplier = 100 \<and> \<bar>lead_time supplier\<bar> < 2 ^ 53 \<longrightarrow>
        adjusted_lead_time supplier = lead_time supplier)
   \<and> adjusted_lead_time (scenario_supplier\<lparr>lead_time := 25, reliability := 84\<rparr>) = 28
   \<and> \<lfloor>(25::real) * (1 + (1 - 84 / 100))\<rfloor> = 29"
proof (intro conjI impI)
  assume "fst (place_order om d q g) = Inr om'"
  then show "pending_orders om' = pending_orders om @
        [\<lparr>arrival_date = BusinessDay_add d (om_lead_time om), quantity = max q (moq om),
          status = ''pending''\<rparr>]"
    by (rule place_order_Inr)
next
  assume "weekday d \<le> 4 \<and> 0 \<le> n"
  then show "BusinessDay_add d n = d + n + 2 * ((weekday d + n) div 5)"
    by (simp add: BusinessDay_add_weekday)
next
  assume "4 < weekday d \<and> 1 \<le> n"
  then show "BusinessDay_add d n = d + (7 - weekday d) + (n - 1) + 2 * ((n - 1) div 5)"
    by (simp add: BusinessDay_add_weekend)
next
  assume "closing_stock (fst (simulate_day policy supplier fc d st)) < reorder_point policy
        \<and> filter (\<lambda>p. d < fst p) (snd st) = []"
  then show "snd (snd (simulate_day policy supplier fc d st)) =
        [(d + adjusted_lead_time supplier, max (eoq policy) (MOQ supplier))]"
    by (simp add: simulate_day_pending)
next
  show "adjusted_lead_time supplier =
       py_int (fmul (of_int (lead_time supplier))
                 (fadd 1 (fdiv (fsub 100 (reliability supplier)) 100)))"
    by (simp add: adjusted_lead_time_def Let_def)
next
  assume "reliability supplier = 100 \<and> \<bar>lead_time supplier\<bar> < 2 ^ 53"
  then show "adjusted_lead_time supplier = lead_time supplier"
    by (simp add: adjusted_lead_time_full_reliability)
next
  show "adjusted_lead_time (scenario_supplier\<lparr>lead_time := 25, reliability := 84\<rparr>) = 28"
    by (rule adjusted_lead_time_25_84)
next
  show "\<lfloor>(25::real) * (1 + (1 - 84 / 100))\<rfloor> = 29" by simp
qed

theorem place_order_arrival_witness:
  "pending_orders (projr (fst (place_order (OrderManager_init scenario_supplier None) 739345 150
                                 (generator 0)))) =
     [\<lparr>arrival_date = 739349, quantity = 150, status = ''pending''\<rparr>]
   \<and> BusinessDay_add 739345 2 = 739349
   \<and> BusinessDay_add 739346 1 = 739348
   \<and> snd (snd (simulate_day scenario_policy (scenario_supplier\<lparr>reliability := 90\<rparr>) []
                  739345 (40, []))) = [(739347, 200)]
   \<and> adjusted_lead_time (scenario_supplier\<lparr>reliability := 100\<rparr>) = 2"
proof -
  let ?om = "OrderManager_init scenario_supplier None"
  let ?sup = "scenario_supplier\<lparr>reliability := 90\<rparr>"
  let ?full = "scenario_supplier\<lparr>reliability := 100\<rparr>"
  have ok: "fst (place_order ?om 739345 150 (generator 0)) =
              Inr (projr (fst (place_order ?om 739345 150 (generator 0))))"
    by (simp add: scenario_defs place_order_cases)
  have wd: "weekday 739345 \<le> 4 \<and> (0::int) \<le> 2" by (simp add: weekday_def)
  have we: "4 < weekday 739346 \<and> (1::int) \<le> 1" by (simp add: weekday_def)
  have day: "closing_stock (fst (simulate_day scenario_policy ?sup [] 739345 (40, [])))
               < reorder_point scenario_policy
             \<and> filter (\<lambda>p. 739345 < fst p) (snd ((40, []) :: int \<times> (date \<times> int) list)) = []"
    by (simp add: scenario_defs simulate_day_def lookup_demand_def)
  have full: "reliability ?full = 100 \<and> \<bar>lead_time ?full\<bar> < 2 ^ 53"
    by (simp add: scenario_defs)
  have lt: "lead_time ?full = 2" by (simp add: scenario_defs)
  have q: "max (eoq scenario_policy) (MOQ ?sup) = 200" by (simp add: scenario_defs)
  note i1 = place_order_arrival [where om = ?om and d = 739345 and q = 150
      and g = "generator 0" and om' = "projr (fst (place_order ?om 739345 150 (generator 0)))"
      and n = 2 and policy = scenario_policy and supplier = ?sup and fc = "[]"
      and st = "(40, [])"]
  note i2 = place_order_arrival [where d = 739346 and n = 1 and supplier = ?full]
  from i1 ok have c1: "pending_orders (projr (fst (place_order ?om 739345 150 (generator 0)))) =
      pending_orders ?om @ [\<lparr>arrival_date = BusinessDay_add 739345 (om_lead_time ?om),
         quantity = max 150 (moq ?om), status = ''pending''\<rparr>]"
    by blast
  from i1 wd have c2: "BusinessDay_add 739345 2 = 739345 + 2 + 2 * ((weekday 739345 + 2) div 5)"
    by blast
  from i2 we have c3: "BusinessDay_add 739346 1 =
      739346 + (7 - weekday 739346) + (1 - 1) + 2 * ((1 - 1) div 5)"
    by blast
  from i1 day have c4: "snd (snd (simulate_day scenario_policy ?sup [] 739345 (40, []))) =
      [(739345 + adjusted_lead_time ?sup, max (eoq scenario_policy) (MOQ ?sup))]"
    by blast
  from i2 full have c5: "adjusted_lead_time ?full = lead_time ?full" by blast
  from c1 c2 c3 c4 c5 lt q adjusted_lead_time_2_90 show ?thesis
    by (simp add: scenario_defs weekday_def)
qed

subsection \<open>C5\<close>

text \<open>
  C5, as stated, fails in the dashboard simulator: with reorder point 50 and safety stock
  10, a day that closes with 55 units (below \<open>reorder_point + safety_stock = 60\<close>) and
  one that closes with exactly 50 units (the reorder point itself), both with no order
  pending, place no order.
\<close>

theorem reorder_threshold_counterexample:
  "closing_stock (fst (simulate_day (scenario_policy\<lparr>safety_stock := 10\<rparr>) scenario_supplier []
                         739342 (55, []))) = 55
   \<and> restock_qty (fst (simulate_day (scenario_policy\<lparr>safety_stock := 10\<rparr>) scenario_supplier []
                         739342 (55, []))) = 0
   \<and> snd (snd (simulate_day (scenario_policy\<lparr>safety_stock := 10\<rparr>) scenario_supplier []
                  739342 (55, []))) = []
   \<and> closing_stock (fst (simulate_day scenario_policy scenario_supplier [] 739342 (50, []))) =
       reorder_point scenario_policy + safety_stock scenario_policy
   \<and> snd (snd (simulate_day scenario_policy scenario_supplier [] 739342 (50, []))) = []"
  by (simp add: scenario_defs simulate_day_def lookup_demand_def)

text \<open>
  C5, amended. In the what-if engine the reorder check, which runs after the day's
  consumption, calls \<open>place_order (date, eoq)\<close>, drawing once from the generator, if and
  only if the stock is at most \<open>rop\<close> and the pending list is empty (an order that has
  arrived stays in the list and keeps it non-empty); \<open>rop\<close> is the policy's
  \<open>reorder_point + safety_stock\<close>, so a stock equal to it triggers the attempt; otherwise
  the check changes nothing. In the dashboard simulator an order of \<open>max eoq MOQ\<close> is
  placed, always successfully, if and only if the closing stock is strictly below the
  policy's \<open>reorder_point\<close> (the safety stock is not part of the threshold) and no order
  is due after the day.
\<close>

theorem reorder_threshold:
  "(calls (snd (check_reorder_point s d g)) = calls g + 1) =
     (current_stock s \<le> rop s \<and> pending_orders (order_mgr s) = [])
   \<and> (current_stock s \<le> rop s \<and> pending_orders (order_mgr s) = [] \<longrightarrow>
        check_reorder_point s d g =
          (case place_order (order_mgr s) d (sim_eoq s) g of
             (Inr om', g') \<Rightarrow> (s\<lparr>order_mgr := om', cost_calc := add_order_cost (cost_calc s)\<rparr>, g')
           | (Inl e, g') \<Rightarrow> (s, g')))
   \<and> (\<not> (current_stock s \<le> rop s \<and> pending_orders (order_mgr s) = []) \<longrightarrow>
        check_reorder_point s d g = (s, g))
   \<and> rop (InventorySimulator_init pid pd sups hr fs) =
       reorder_point (pd_policy pd) + safety_stock (pd_policy pd)
   \<and> sim_eoq (InventorySimulator_init pid pd sups hr fs) = eoq (pd_policy pd)
   \<and> (restock_qty (fst (simulate_day policy supplier fc d st)) =
        (if closing_stock (fst (simulate_day policy supplier fc d st)) < reorder_point policy
            \<and> filter (\<lambda>p. d < fst p) (snd st) = []
         then max (eoq policy) (MOQ supplier) else 0))
   \<and> (snd (snd (simulate_day policy supplier fc d st)) =
        (if closing_stock (fst (simulate_day policy supplier fc d st)) < reorder_point policy
            \<and> filter (\<lambda>p. d < fst p) (snd st) = []
         then [(d + adjusted_lead_time supplier, max (eoq policy) (MOQ supplier))]
         else filter (\<lambda>p. d < fst p) (snd st)))"
proof (intro conjI impI)
  show "(calls (snd (check_reorder_point s d g)) = calls g + 1) =
     (current_stock s \<le> rop s \<and> pending_orders (order_mgr s) = [])"
    by (rule check_reorder_point_calls)
next
  assume "current_stock s \<le> rop s \<and> pending_orders (order_mgr s) = []"
  then show "check_reorder_point s d g =
          (case place_order (order_mgr s) d (sim_eoq s) g of
             (Inr om', g') \<Rightarrow> (s\<lparr>order_mgr := om', cost_calc := add_order_cost (cost_calc s)\<rparr>, g')
           | (Inl e, g') \<Rightarrow> (s, g'))"
    by (simp add: check_reorder_point_def get_pending_orders_def)
next
  assume "\<not> (current_stock s \<le> rop s \<and> pending_orders (order_mgr s) = [])"
  then show "check_reorder_point s d g = (s, g)"
    by (rule check_reorder_point_blocked)
next
  show "rop (InventorySimulator_init pid pd sups hr fs) =
       reorder_point (pd_policy pd) + safety_stock (pd_policy pd)"
    by (simp add: InventorySimulator_init_def Let_def)
next
  show "sim_eoq (InventorySimulator_init pid pd sups hr fs) = eoq (pd_policy pd)"
    by (simp add: InventorySimulator_init_def Let_def)
next
  show "restock_qty (fst (simulate_day policy supplier fc d st)) =
        (if closing_stock (fst (simulate_day policy supplier fc d st)) < reorder_point policy
            \<and> filter (\<lambda>p. d < fst p) (snd st) = []
         then max (eoq policy) (MOQ supplier) else 0)"
    by (rule simulate_day_restock)
next
  show "snd (snd (simulate_day policy supplier fc d st)) =
        (if closing_stock (fst (simulate_day policy supplier fc d st)) < reorder_point policy
            \<and> filter (\<lambda>p. d < fst p) (snd st) = []
         then [(d + adjusted_lead_time supplier, max (eoq policy) (MOQ supplier))]
         else filter (\<lambda>p. d < fst p) (snd st))"
    by (simp add: simulate_day_pending Let_def)
qed

theorem reorder_threshold_witness:
  "calls (snd (check_reorder_point (scenario_sim\<lparr>current_stock := 50\<rparr>) 739342 (generator 0))) = 1
   \<and> pending_orders (order_mgr (fst (check_reorder_point (scenario_sim\<lparr>current_stock := 50\<rparr>)
                                       739342 (generator 0)))) =
       [\<lparr>arrival_date = 739344, quantity = 200, status = ''pending''\<rparr>]
   \<and> check_reorder_point (scenario_sim\<lparr>current_stock := 51\<rparr>) 739342 (generator 0) =
       (scenario_sim\<lparr>current_stock := 51\<rparr>, generator 0)
   \<and> restock_qty (fst (simulate_day scenario_policy scenario_supplier [] 739342 (49, []))) = 200
   \<and> snd (snd (simulate_day scenario_policy scenario_supplier [] 739342 (49, []))) =
       [(739345, 200)]"
proof -
  let ?s = "scenario_sim\<lparr>current_stock := 50\<rparr>"
  let ?t = "scenario_sim\<lparr>current_stock := 51\<rparr>"
  let ?st = "(49, []) :: int \<times> (date \<times> int) list"
  have h1: "current_stock ?s \<le> rop ?s \<and> pending_orders (order_mgr ?s) = []"
    by (simp add: scenario_defs)
  have h2: "\<not> (current_stock ?t \<le> rop ?t \<and> pending_orders (order_mgr ?t) = [])"
    by (simp add: scenario_defs)
  have p: "place_order (order_mgr ?s) 739342 (sim_eoq ?s) (generator 0) =
      (Inr ((order_mgr ?s)\<lparr>pending_orders :=
               [\<lparr>arrival_date = 739344, quantity = 200, status = ''pending''\<rparr>]\<rparr>),
       (generator 0)\<lparr>calls := 1\<rparr>)"
    by (simp add: scenario_defs place_order_cases BusinessDay_add_def adjust_ndays_def weekday_def)
  have h3: "closing_stock (fst (simulate_day scenario_policy scenario_supplier [] 739342 ?st))
              < reorder_point scenario_policy
            \<and> filter (\<lambda>p. 739342 < fst p) (snd ?st) = []"
    by (simp add: scenario_defs simulate_day_def lookup_demand_def)
  have alt: "adjusted_lead_time scenario_supplier = 3"
    by code_simp
  have q: "max (eoq scenario_policy) (MOQ scenario_supplier) = 200"
    by (simp add: scenario_defs)
  note i1 = reorder_threshold [where s = ?s and d = 739342 and g = "generator 0"
      and policy = scenario_policy and supplier = scenario_supplier and fc = "[]" and st = ?st]
  note i2 = reorder_threshold [where s = ?t and d = 739342 and g = "generator 0"]
  from i1 h1 have c1: "calls (snd (check_reorder_point ?s 739342 (generator 0))) =
      calls (generator 0) + 1"
    by blast
  from i1 h1 p have c2: "check_reorder_point ?s 739342 (generator 0) =
      (?s\<lparr>order_mgr := (order_mgr ?s)\<lparr>pending_orders :=
               [\<lparr>arrival_date = 739344, quantity = 200, status = ''pending''\<rparr>]\<rparr>,
           cost_calc := add_order_cost (cost_calc ?s)\<rparr>, (generator 0)\<lparr>calls := 1\<rparr>)"
    by simp
  from i2 h2 have c3: "check_reorder_point ?t 739342 (generator 0) = (?t, generator 0)"
    by blast
  from i1 h3 alt q have c4:
    "restock_qty (fst (simulate_day scenario_policy scenario_supplier [] 739342 ?st)) = 200"
    "snd (snd (simulate_day scenario_policy scenario_supplier [] 739342 ?st)) = [(739345, 200)]"
    by simp_all
  from c1 c2 c3 c4 show ?thesis by (simp add: generator_def)
qed

subsection \<open>C6\<close>

text \<open>
  C6, as stated, fails in the dashboard simulator: 2025-04-03 (ordinal 739344) has no
  forecast row in the scenario, and \<open>simulate_product\<close> reports no error and
  writes a ledger row for that day with demand 0.
\<close>

theorem missing_demand_counterexample:
  "filter (\<lambda>r. f_date r = 739344) (forecast scenario_loader) = []
   \<and> fst (simulate_product (\<lambda>_ _ _. 5) scenario_loader ''P1'' None) = None
   \<and> row_date (snd (simulate_product (\<lambda>_ _ _. 5) scenario_loader ''P1'' None) ! 2) = 739344
   \<and> row_demand (snd (simulate_product (\<lambda>_ _ _. 5) scenario_loader ''P1'' None) ! 2) = 0"
  by code_simp

text \<open>
  C6, amended. In the what-if engine the demand lookup of a date with neither an override
  nor a forecast row raises (\<open>ValueError\<close>) and the day ends with that exception,
  and a run whose date range holds such a date ends with an exception and no result;
  a demand the lookup does return is the override or the units of a forecast row of that
  date, never a filled-in value. In the dashboard simulator, which has no overrides, the
  demand of a date without a forecast row is 0 and the day goes on.
\<close>

theorem missing_demand:
  "(modifications d = None \<and> d \<notin> fst ` set (pd_forecast (product_data s)) \<longrightarrow>
      get_daily_demand s d modifications = Inl (ValueError ''No forecast available for date'')
      \<and> fst (run_day modifications d (s, g)) = Inl (ValueError ''No forecast available for date''))
   \<and> (get_daily_demand s d modifications = Inr v \<longrightarrow>
        modifications d = Some v \<or>
        (modifications d = None \<and> (d, v) \<in> set (pd_forecast (product_data s))))
   \<and> (d \<notin> f_date ` set fc \<longrightarrow>
        lookup_demand fc d = 0
        \<and> row_demand (fst (simulate_day policy supplier fc d st)) = 0)
   \<and> (d \<in> {a..b} \<and> modifications d = None
        \<and> d \<notin> fst ` set (pd_forecast (product_data s0)) \<longrightarrow>
        (\<exists>e. fst (run s0 a b modifications h f g) = Inl e))"
proof (intro conjI impI)
  assume a: "modifications d = None \<and> d \<notin> fst ` set (pd_forecast (product_data s))"
  then show e: "get_daily_demand s d modifications = Inl (ValueError ''No forecast available for date'')"
    by (simp add: get_daily_demand_missing)
  then show "fst (run_day modifications d (s, g)) = Inl (ValueError ''No forecast available for date'')"
    by (simp add: run_day_cases)
next
  assume "get_daily_demand s d modifications = Inr v"
  then show "modifications d = Some v \<or>
        (modifications d = None \<and> (d, v) \<in> set (pd_forecast (product_data s)))"
    by (rule get_daily_demand_Inr)
next
  assume a: "d \<notin> f_date ` set fc"
  then show z: "lookup_demand fc d = 0" by (rule lookup_demand_missing)
  then show "row_demand (fst (simulate_day policy supplier fc d st)) = 0"
    using simulate_day_row [OF refl, of policy supplier fc d st] by simp
next
  assume gap: "d \<in> {a..b} \<and> modifications d = None
        \<and> d \<notin> fst ` set (pd_forecast (product_data s0))"
  show "\<exists>e. fst (run s0 a b modifications h f g) = Inl e"
  proof (cases "fst (run s0 a b modifications h f g)")
    case (Inl e)
    then show ?thesis by blast
  next
    case (Inr res)
    from run_Inr_complete [OF Inr] gap show ?thesis by blast
  qed
qed

theorem missing_demand_witness:
  "get_daily_demand scenario_sim 739350 Map.empty = Inl (ValueError ''No forecast available for date'')
   \<and> fst (run_day Map.empty 739350 (scenario_sim, generator 0)) =
        Inl (ValueError ''No forecast available for date'')
   \<and> get_daily_demand scenario_sim 739343 Map.empty = Inr 20
   \<and> (739343, 20) \<in> set (pd_forecast (product_data scenario_sim))
   \<and> lookup_demand [] 739350 = 0
   \<and> row_demand (fst (simulate_day scenario_policy scenario_supplier [] 739350 (60, []))) = 0
   \<and> fst (run (scenario_sim\<lparr>product_data := scenario_data
                   \<lparr>pd_forecast := [(739342, 20), (739346, 20)]\<rparr>\<rparr>)
             739342 739346 Map.empty None None (generator 0)) =
       Inl (ValueError ''No forecast available for date'')"
proof -
  let ?gap = "scenario_sim\<lparr>product_data := scenario_data
                   \<lparr>pd_forecast := [(739342, 20), (739346, 20)]\<rparr>\<rparr>"
  have h4: "739344 \<in> {739342..739346::int} \<and> Map.empty 739344 = (None :: int option)
            \<and> 739344 \<notin> fst ` set (pd_forecast (product_data ?gap))"
    by simp
  have e4: "fst (run ?gap 739342 739346 Map.empty None None (generator 0)) =
       Inl (ValueError ''No forecast available for date'')"
    by (simp add: scenario_defs engine_defs upto_rec1)
  from missing_demand [where d = 739344 and a = 739342 and b = 739346
      and modifications = Map.empty and ?s0.0 = ?gap and h = None and f = None
      and g = "generator 0"] h4
  have c4: "\<exists>e. fst (run ?gap 739342 739346 Map.empty None None (generator 0)) = Inl e"
    by blast
  have h1: "Map.empty 739350 = (None :: int option)
            \<and> 739350 \<notin> fst ` set (pd_forecast (product_data scenario_sim))"
    by (simp add: scenario_defs)
  have h2: "get_daily_demand scenario_sim 739343 Map.empty = Inr 20"
    by (simp add: scenario_defs get_daily_demand_def)
  have h3: "739350 \<notin> f_date ` set ([] :: forecast_row list)" by simp
  from missing_demand [of Map.empty 739350 scenario_sim "generator 0" 20 "[]"
      scenario_policy scenario_supplier "(60, [])"] h1
    missing_demand [of Map.empty 739343 scenario_sim "generator 0" 20 "[]"
      scenario_policy scenario_supplier "(60, [])"] h2 h3 c4 e4
  show ?thesis by simp
qed

subsection \<open>C7\<close>

text \<open>
  C7 fails in the what-if engine at the holding rate. The simulator built for the
  scenario without a holding-rate override (unit cost 10, so that the documented daily
  rate is \<open>10 * 0.25 / 365 = 1/146\<close>) holds the rate \<open>0.20\<close>: \<open>CostCalculator\<close>
  discards its \<open>holding_rate\<close> argument. One day run without an override closes with
  40 units in stock and accrues a holding cost of \<open>40 * 0.20 = 8\<close>.
\<close>

theorem holding_rate_argument_discarded:
  "holding_rate (cost_calc scenario_sim) = 1 / 5
   \<and> unit_cost (pd_policy (product_data scenario_sim)) * 0.25 / 365 = 1 / 146
   \<and> (case run scenario_sim 739342 739342 Map.empty None None (generator 0) of
        (Inl e, s', g') \<Rightarrow> False
      | (Inr r, s', g') \<Rightarrow>
          map rec_inventory (timeline r) = [40] \<and> total_holding (cost_calc s') = 8
          \<and> total_holding_cost (metrics r) = 8)"
  by (simp add: scenario_defs engine_defs)

subsection \<open>C8\<close>

text \<open>
  C8, as stated, fails in the what-if engine: \<open>place_order\<close> draws from the
  process-global generator and \<open>run\<close> takes no seed, so two executions on the same
  simulator, date range and demand differ when the global generator returns different
  values: with a draw of 0 the order of the first day is placed, with a draw of 0.95
  (above the reliability 0.9) every attempt fails.
\<close>

theorem global_generator_counterexample:
  "fst (run scenario_sim 739342 739346 Map.empty None None (generator 0)) \<noteq>
   fst (run scenario_sim 739342 739346 Map.empty None None (generator 0.95))"
proof -
  have "map rec_pending_orders (timeline (projr
          (fst (run scenario_sim 739342 739346 Map.empty None None (generator 0))))) =
        [1, 1, 1, 1, 1]"
    by (simp add: scenario_defs engine_defs upto_rec1)
  moreover have "map rec_pending_orders (timeline (projr
          (fst (run scenario_sim 739342 739346 Map.empty None None (generator 0.95))))) =
        [0, 0, 0, 0, 0]"
    by (simp add: scenario_defs engine_defs upto_rec1)
  ultimately show ?thesis by auto
qed

text \<open>
  C8, amended. A run of the what-if engine is determined by the simulator, the arguments
  of \<open>run\<close> and the values the global generator returns during the run: two executions
  whose generators return the same next \<open>n\<close> values, \<open>n\<close> the number of simulated
  days, end with the same result (records and metrics, or exception) and the same
  simulator state, whatever the generators return afterwards. The same holds for the day
  loop over any list of days.
\<close>

theorem run_determined_by_draws:
  "((\<forall>i<length ds. draws g1 (calls g1 + i) = draws g2 (calls g2 + i)) \<longrightarrow>
      fst (run_loop m ds acc (s, g1)) = fst (run_loop m ds acc (s, g2))
      \<and> fst (snd (run_loop m ds acc (s, g1))) = fst (snd (run_loop m ds acc (s, g2))))
   \<and> ((\<forall>i<nat (b - a + 1). draws g1 (calls g1 + i) = draws g2 (calls g2 + i)) \<longrightarrow>
      fst (run s0 a b m h f g1) = fst (run s0 a b m h f g2)
      \<and> fst (snd (run s0 a b m h f g1)) = fst (snd (run s0 a b m h f g2)))"
proof (intro conjI impI)
  assume a: "\<forall>i<length ds. draws g1 (calls g1 + i) = draws g2 (calls g2 + i)"
  from run_loop_agree [OF a]
  show "fst (run_loop m ds acc (s, g1)) = fst (run_loop m ds acc (s, g2))"
    and "fst (snd (run_loop m ds acc (s, g1))) = fst (snd (run_loop m ds acc (s, g2)))"
    by blast+
next
  assume a: "\<forall>i<nat (b - a + 1). draws g1 (calls g1 + i) = draws g2 (calls g2 + i)"
  from run_agree [OF a]
  show "fst (run s0 a b m h f g1) = fst (run s0 a b m h f g2)"
    and "fst (snd (run s0 a b m h f g1)) = fst (snd (run s0 a b m h f g2))"
    by blast+
qed

theorem run_determined_by_draws_witness:
  "fst (run_loop Map.empty [739342, 739343] [] (scenario_sim\<lparr>current_stock := 60\<rparr>,
          \<lparr>draws = (\<lambda>n. if n < 2 then 0 else 1), calls = 0\<rparr>)) =
   fst (run_loop Map.empty [739342, 739343] [] (scenario_sim\<lparr>current_stock := 60\<rparr>, generator 0))
   \<and> fst (run scenario_sim 739342 739346 Map.empty None None
            \<lparr>draws = (\<lambda>n. if n < 5 then 0 else 1), calls = 0\<rparr>) =
     fst (run scenario_sim 739342 739346 Map.empty None None (generator 0))
   \<and> fst (snd (run scenario_sim 739342 739346 Map.empty None None
            \<lparr>draws = (\<lambda>n. if n < 5 then 0 else 1), calls = 0\<rparr>)) =
     fst (snd (run scenario_sim 739342 739346 Map.empty None None (generator 0)))"
proof -
  let ?g2 = "\<lparr>draws = (\<lambda>n::nat. if n < 2 then 0 else (1::real)), calls = 0\<rparr>"
  let ?g5 = "\<lparr>draws = (\<lambda>n::nat. if n < 5 then 0 else (1::real)), calls = 0\<rparr>"
  have h1: "\<forall>i<length [739342, 739343 :: int].
      draws ?g2 (calls ?g2 + i) = draws (generator 0) (calls (generator 0) + i)"
    by (simp add: generator_def)
  have h2: "\<forall>i<nat (739346 - 739342 + 1).
      draws ?g5 (calls ?g5 + i) = draws (generator 0) (calls (generator 0) + i)"
    by (simp add: generator_def)
  from run_determined_by_draws [where ds = "[739342, 739343]" and ?g1.0 = ?g2
      and ?g2.0 = "generator 0" and m = Map.empty and acc = "[]"
      and s = "scenario_sim\<lparr>current_stock := 60\<rparr>" and a = 739342 and b = 739342] h1
  have c1: "fst (run_loop Map.empty [739342, 739343] [] (scenario_sim\<lparr>current_stock := 60\<rparr>, ?g2)) =
   fst (run_loop Map.empty [739342, 739343] [] (scenario_sim\<lparr>current_stock := 60\<rparr>, generator 0))"
    by blast
  from run_determined_by_draws [where ds = "[]" and ?g1.0 = ?g5
      and ?g2.0 = "generator 0" and m = Map.empty and a = 739342 and b = 739346
      and ?s0.0 = scenario_sim and h = None and f = None] h2
  have c2: "fst (run scenario_sim 739342 739346 Map.empty None None ?g5) =
     fst (run scenario_sim 739342 739346 Map.empty None None (generator 0))
   \<and> fst (snd (run scenario_sim 739342 739346 Map.empty None None ?g5)) =
     fst (snd (run scenario_sim 739342 739346 Map.empty None None (generator 0)))"
    by blast
  from c1 c2 show ?thesis by blast
qed

subsection \<open>C9\<close>

text \<open>
  C9, as stated, fails in the dashboard simulator: for a product with no policy row the
  lookup raises \<open>IndexError\<close>, which \<open>simulate_product\<close> catches; the caller gets an
  empty frame, not the exception.
\<close>

theorem error_propagation_counterexample:
  "simulate_product (\<lambda>_ _ _. 5) (scenario_loader\<lparr>policies := []\<rparr>) ''P1'' None =
     (Some (IndexError ''single positional indexer is out-of-bounds''), [])"
  by (simp add: simulate_product_def simulate_product_try_def iloc0_def scenario_loader_def)

text \<open>
  C9, amended. In the what-if engine \<open>run\<close> returns a result only when the forecast is
  not empty and covers the date range, the range is not empty, the ledger has a row for
  the first day and every day of the range has an override or a forecast row, and the
  result then has one record for every day of the range, in order; in every other case,
  and when the supplier to override with is unknown, the call ends with the exception
  and no result. In the dashboard simulator every exception of the simulation is caught
  and an empty frame is returned with it, as for a product without a policy row.
\<close>

theorem error_propagation:
  "(fst (run s0 a b m h f g) = Inr res \<longrightarrow>
      pd_forecast (product_data s0) \<noteq> []
      \<and> Min (set (map fst (pd_forecast (product_data s0)))) \<le> a
      \<and> b \<le> Max (set (map fst (pd_forecast (product_data s0))))
      \<and> a \<le> b
      \<and> a \<in> fst ` set (pd_ledger (product_data s0))
      \<and> (\<forall>d\<in>{a..b}. m d = None \<longrightarrow> d \<in> fst ` set (pd_forecast (product_data s0)))
      \<and> map rec_date (timeline res) = [a..b])
   \<and> (sid \<notin> supplier_id ` set (all_suppliers s0) \<longrightarrow>
        fst (run s0 a b m h (Some sid) g) = Inl (ValueError ''Supplier ID not found.''))
   \<and> (simulate_product_try safety_term ld pid params = Inl e \<longrightarrow>
        simulate_product safety_term ld pid params = (Some e, []))
   \<and> (pid \<notin> policy_product_id ` set (policies ld) \<longrightarrow>
        simulate_product safety_term ld pid params =
          (Some (IndexError ''single positional indexer is out-of-bounds''), []))"
proof (intro conjI impI)
  assume r: "fst (run s0 a b m h f g) = Inr res"
  from run_Inr_complete [OF r]
  show "pd_forecast (product_data s0) \<noteq> []"
    and "Min (set (map fst (pd_forecast (product_data s0)))) \<le> a"
    and "b \<le> Max (set (map fst (pd_forecast (product_data s0))))"
    and "a \<le> b"
    and "a \<in> fst ` set (pd_ledger (product_data s0))"
    and "\<forall>d\<in>{a..b}. m d = None \<longrightarrow> d \<in> fst ` set (pd_forecast (product_data s0))"
    and "map rec_date (timeline res) = [a..b]"
    by blast+
next
  assume "sid \<notin> supplier_id ` set (all_suppliers s0)"
  then show "fst (run s0 a b m h (Some sid) g) = Inl (ValueError ''Supplier ID not found.'')"
    by (rule run_unknown_supplier)
next
  assume "simulate_product_try safety_term ld pid params = Inl e"
  then show "simulate_product safety_term ld pid params = (Some e, [])"
    by (simp add: simulate_product_def)
next
  assume "pid \<notin> policy_product_id ` set (policies ld)"
  then show "simulate_product safety_term ld pid params =
          (Some (IndexError ''single positional indexer is out-of-bounds''), [])"
    by (rule simulate_product_no_policy)
qed

theorem error_propagation_witness:
  "map rec_date (timeline (projr (fst (run scenario_sim 739342 739346 Map.empty None None
                                          (generator 0))))) =
     [739342, 739343, 739344, 739345, 739346]
   \<and> fst (run scenario_sim 739342 739347 Map.empty None None (generator 0)) =
       Inl (ValueError ''Simulation range is outside forecast range'')
   \<and> fst (run scenario_sim 739343 739346 Map.empty None None (generator 0)) =
       Inl (ValueError ''No inventory data for start date'')
   \<and> fst (run (scenario_sim\<lparr>product_data := scenario_data
                   \<lparr>pd_forecast := [(739342, 20), (739346, 20)]\<rparr>\<rparr>)
             739342 739346 Map.empty None None (generator 0)) =
       Inl (ValueError ''No forecast available for date'')
   \<and> fst (run scenario_sim 739342 739346 Map.empty None (Some ''S9'') (generator 0)) =
       Inl (ValueError ''Supplier ID not found.'')
   \<and> simulate_product (\<lambda>_ _ _. 5) scenario_loader ''P2'' None =
       (Some (IndexError ''single positional indexer is out-of-bounds''), [])
   \<and> simulate_product (\<lambda>_ _ _. 5) (scenario_loader\<lparr>suppliers := []\<rparr>) ''P1'' None =
       (Some (IndexError ''single positional indexer is out-of-bounds''), [])"
proof -
  let ?run = "fst (run scenario_sim 739342 739346 Map.empty None None (generator 0))"
  have ok: "?run = Inr (projr ?run)"
    by (simp add: scenario_defs engine_defs upto_rec1)
  have e1: "fst (run scenario_sim 739342 739347 Map.empty None None (generator 0)) =
       Inl (ValueError ''Simulation range is outside forecast range'')"
    by (simp add: scenario_defs engine_defs)
  have e2: "fst (run scenario_sim 739343 739346 Map.empty None None (generator 0)) =
       Inl (ValueError ''No inventory data for start date'')"
    by (simp add: scenario_defs engine_defs)
  have e3: "fst (run (scenario_sim\<lparr>product_data := scenario_data
                   \<lparr>pd_forecast := [(739342, 20), (739346, 20)]\<rparr>\<rparr>)
             739342 739346 Map.empty None None (generator 0)) =
       Inl (ValueError ''No forecast available for date'')"
    by (simp add: scenario_defs engine_defs upto_rec1)
  have h2: "''S9'' \<notin> supplier_id ` set (all_suppliers scenario_sim)"
    by (simp add: scenario_defs)
  have h3: "simulate_product_try (\<lambda>_ _ _. 5) (scenario_loader\<lparr>suppliers := []\<rparr>) ''P1'' None =
      Inl (IndexError ''single positional indexer is out-of-bounds'')"
    by (simp add: simulate_product_try_def iloc0_def scenario_loader_def scenario_defs)
  have h4: "''P2'' \<notin> policy_product_id ` set (policies scenario_loader)"
    by (simp add: scenario_loader_def scenario_defs)
  have up: "[739342..739346] = [739342, 739343, 739344, 739345, 739346]"
    by (simp add: upto_rec1)
  from error_propagation [where ?s0.0 = scenario_sim and a = 739342 and b = 739346
      and m = Map.empty and h = None and f = None and g = "generator 0" and res = "projr ?run"
      and sid = "''S9''" and ld = "scenario_loader\<lparr>suppliers := []\<rparr>" and pid = "''P1''"
      and params = None and safety_term = "\<lambda>_ _ _. 5"
      and e = "IndexError ''single positional indexer is out-of-bounds''"] ok h2 h3 up
  have c1: "map rec_date (timeline (projr ?run)) = [739342, 739343, 739344, 739345, 739346]"
    and c2: "fst (run scenario_sim 739342 739346 Map.empty None (Some ''S9'') (generator 0)) =
       Inl (ValueError ''Supplier ID not found.'')"
    and c3: "simulate_product (\<lambda>_ _ _. 5) (scenario_loader\<lparr>suppliers := []\<rparr>) ''P1'' None =
       (Some (IndexError ''single positional indexer is out-of-bounds''), [])"
    by simp_all
  from error_propagation [where ld = scenario_loader and pid = "''P2''" and params = None
      and safety_term = "\<lambda>_ _ _. 5"] h4
  have c4: "simulate_product (\<lambda>_ _ _. 5) scenario_loader ''P2'' None =
       (Some (IndexError ''single positional indexer is out-of-bounds''), [])"
    by blast
  from c1 c2 c3 c4 e1 e2 e3 show ?thesis by simp
qed

subsection \<open>C10\<close>

text \<open>
  C10, as stated, fails at its cost bound. The ordering total belongs to the simulator
  object and survives a run, while a supplier override builds a new, empty order
  manager: the scenario simulator run once places an order (total 40, one order cost),
  and run again with \<open>force_supplier_id\<close> it places a second one and reports an
  ordering cost of 80, twice the order cost. And the reported cost is rounded to two
  decimals: a first run with an order cost of 0.006 reports 0.01.
\<close>

theorem single_order_per_run_counterexample:
  "(case run scenario_sim 739342 739346 (\<lambda>_. Some 120) None None (generator 0) of
      (r1, s1, g1) \<Rightarrow>
        (case run s1 739342 739346 (\<lambda>_. Some 120) None (Some ''S1'') g1 of
           (Inl e, s2, g2) \<Rightarrow> False
         | (Inr res, s2, g2) \<Rightarrow>
             order_cost (cost_calc s2) = 40 \<and> total_ordering (cost_calc s2) = 80
             \<and> total_ordering_cost (metrics res) = 80))
   \<and> (case run (InventorySimulator_init ''P1''
                  (scenario_data\<lparr>pd_supplier := scenario_supplier\<lparr>MOQ := 1, cost := 0.06\<rparr>\<rparr>)
                  [] None None)
             739342 739342 Map.empty None None (generator 0) of
        (Inl e, s', g') \<Rightarrow> False
      | (Inr res, s', g') \<Rightarrow>
          order_cost (cost_calc s') = 0.006 \<and> total_ordering_cost (metrics res) = 0.01)"
  by (simp add: scenario_defs engine_defs upto_rec1 override_supplier_def)

text \<open>
  C10, amended. In the what-if engine an order, once placed, stays in the pending list: a
  successful \<open>place_order\<close> leaves the list non-empty, the arrival step adds the
  quantities due that day to the stock and does not touch the order manager, and from a
  state with a non-empty list the day loop, however long and however it ends, leaves the
  order manager and the ordering total as they were and draws nothing from the generator
  (no further attempt). So in every run, of any simulator, at most one order is placed:
  the ordering total after the run is the total before it or that plus one order cost,
  the order cost being unchanged. A run of a newly built simulator ends with at most one
  order and an ordering total equal to that number of orders times the order cost (0 or
  one order cost, never more than a non-negative order cost, the order cost being a
  tenth of MOQ times the supplier's unit cost), and the reported
  \<open>total_ordering_cost\<close> is that total rounded to two decimals.
\<close>

theorem single_order_per_run:
  "(fst (place_order om d q g) = Inr om' \<longrightarrow> pending_orders om' \<noteq> [])
   \<and> order_mgr (process_order_arrivals s d) = order_mgr s
   \<and> current_stock (process_order_arrivals s d) =
       current_stock s +
         sum_list (map quantity (filter (\<lambda>ord. arrival_date ord = d)
                                   (pending_orders (order_mgr s))))
   \<and> (pending_orders (order_mgr (fst sg)) \<noteq> [] \<longrightarrow>
        order_mgr (fst (snd (run_loop m ds acc sg))) = order_mgr (fst sg)
        \<and> total_ordering (cost_calc (fst (snd (run_loop m ds acc sg)))) =
            total_ordering (cost_calc (fst sg))
        \<and> snd (snd (run_loop m ds acc sg)) = snd sg)
   \<and> (let s' = fst (snd (run s0 a b m h f g))
      in order_cost (cost_calc s') = order_cost (cost_calc s0)
         \<and> (total_ordering (cost_calc s') = total_ordering (cost_calc s0)
              \<or> total_ordering (cost_calc s') =
                  total_ordering (cost_calc s0) + order_cost (cost_calc s0)))
   \<and> (let s' = fst (snd (run (InventorySimulator_init pid pd sups hr fs) a b m h f g))
      in length (pending_orders (order_mgr s')) \<le> 1
         \<and> total_ordering (cost_calc s') =
             of_nat (length (pending_orders (order_mgr s'))) * order_cost (cost_calc s')
         \<and> (total_ordering (cost_calc s') = 0
              \<or> total_ordering (cost_calc s') = order_cost (cost_calc s'))
         \<and> order_cost (cost_calc s') = 0.1 * of_int (MOQ (pd_supplier pd)) * cost (pd_supplier pd)
         \<and> (0 \<le> order_cost (cost_calc s') \<longrightarrow>
               total_ordering (cost_calc s') \<le> order_cost (cost_calc s'))
         \<and> (\<forall>res. fst (run (InventorySimulator_init pid pd sups hr fs) a b m h f g) = Inr res
               \<longrightarrow> total_ordering_cost (metrics res) = round2 (total_ordering (cost_calc s'))))"
proof (intro conjI impI)
  assume "fst (place_order om d q g) = Inr om'"
  from place_order_Inr [OF this] show "pending_orders om' \<noteq> []" by simp
next
  show "order_mgr (process_order_arrivals s d) = order_mgr s"
    by (simp add: process_order_arrivals_fields)
next
  show "current_stock (process_order_arrivals s d) =
       current_stock s +
         sum_list (map quantity (filter (\<lambda>ord. arrival_date ord = d)
                                   (pending_orders (order_mgr s))))"
    by (rule process_order_arrivals_stock)
next
  assume ne: "pending_orders (order_mgr (fst sg)) \<noteq> []"
  obtain r s' g' where loop: "run_loop m ds acc sg = (r, s', g')"
    by (cases "run_loop m ds acc sg") auto
  from run_loop_blocked [OF loop ne] loop
  show "order_mgr (fst (snd (run_loop m ds acc sg))) = order_mgr (fst sg)"
    and "total_ordering (cost_calc (fst (snd (run_loop m ds acc sg)))) =
            total_ordering (cost_calc (fst sg))"
    and "snd (snd (run_loop m ds acc sg)) = snd sg"
    by simp_all
next
  obtain r s' g' where run: "run s0 a b m h f g = (r, s', g')"
    by (cases "run s0 a b m h f g") auto
  from run_one_order [OF run] run
  show "let s' = fst (snd (run s0 a b m h f g))
      in order_cost (cost_calc s') = order_cost (cost_calc s0)
         \<and> (total_ordering (cost_calc s') = total_ordering (cost_calc s0)
              \<or> total_ordering (cost_calc s') =
                  total_ordering (cost_calc s0) + order_cost (cost_calc s0))"
    by (simp add: Let_def)
next
  let ?run = "run (InventorySimulator_init pid pd sups hr fs) a b m h f g"
  obtain r s' g' where run: "?run = (r, s', g')"
    by (cases ?run) auto
  note fresh = run_fresh_ordering [OF run]
  from fresh have le: "length (pending_orders (order_mgr s')) \<le> 1"
    and tot: "total_ordering (cost_calc s') =
             of_nat (length (pending_orders (order_mgr s'))) * order_cost (cost_calc s')"
    and oc: "order_cost (cost_calc s') = 0.1 * of_int (MOQ (pd_supplier pd)) * cost (pd_supplier pd)"
    by blast+
  from le have "length (pending_orders (order_mgr s')) = 0 \<or>
      length (pending_orders (order_mgr s')) = 1"
    by linarith
  with tot have one: "total_ordering (cost_calc s') = 0
              \<or> total_ordering (cost_calc s') = order_cost (cost_calc s')"
    by auto
  have met: "total_ordering_cost (metrics res) = round2 (total_ordering (cost_calc s'))"
    if "r = Inr res" for res
  proof -
    from run_shape [OF run] that obtain s3 rl where
      "r = (case rl of Inl e \<Rightarrow> Inl e | Inr rs \<Rightarrow> compile_results s' rs)"
      by auto
    with that obtain rs where "compile_results s' rs = Inr res"
      by (cases rl) auto
    from compile_results_Inr [OF this] show ?thesis by simp
  qed
  have bound: "total_ordering (cost_calc s') \<le> order_cost (cost_calc s')"
    if "0 \<le> order_cost (cost_calc s')"
    using one that by auto
  have s': "fst (snd ?run) = s'" and r: "fst ?run = r" using run by simp_all
  show "let s' = fst (snd ?run)
      in length (pending_orders (order_mgr s')) \<le> 1
         \<and> total_ordering (cost_calc s') =
             of_nat (length (pending_orders (order_mgr s'))) * order_cost (cost_calc s')
         \<and> (total_ordering (cost_calc s') = 0
              \<or> total_ordering (cost_calc s') = order_cost (cost_calc s'))
         \<and> order_cost (cost_calc s') = 0.1 * of_int (MOQ (pd_supplier pd)) * cost (pd_supplier pd)
         \<and> (0 \<le> order_cost (cost_calc s') \<longrightarrow>
               total_ordering (cost_calc s') \<le> order_cost (cost_calc s'))
         \<and> (\<forall>res. fst ?run = Inr res
               \<longrightarrow> total_ordering_cost (metrics res) = round2 (total_ordering (cost_calc s')))"
    unfolding Let_def s' r using le tot one oc met bound by blast
qed

theorem single_order_per_run_witness:
  "pending_orders (projr (fst (place_order (OrderManager_init scenario_supplier None) 739342 200
                                 (generator 0)))) \<noteq> []
   \<and> (case run_loop (\<lambda>_. Some 120) [739343, 739344, 739345] []
            (scenario_sim\<lparr>order_mgr := (order_mgr scenario_sim)
               \<lparr>pending_orders := [\<lparr>arrival_date = 739344, quantity = 200, status = ''pending''\<rparr>]\<rparr>\<rparr>,
             generator 0) of
        (r, s', g') \<Rightarrow>
          pending_orders (order_mgr s') =
            [\<lparr>arrival_date = 739344, quantity = 200, status = ''pending''\<rparr>]
          \<and> total_ordering (cost_calc s') = 0 \<and> calls g' = 0 \<and> current_stock s' = 0)
   \<and> (case run scenario_sim 739342 739346 (\<lambda>_. Some 120) None None (generator 0) of
        (Inl e, s', g') \<Rightarrow> False
      | (Inr res, s', g') \<Rightarrow>
          length (pending_orders (order_mgr s')) = 1 \<and> total_ordering (cost_calc s') = 40
          \<and> order_cost (cost_calc s') = 40 \<and> total_ordering_cost (metrics res) = 40
          \<and> calls g' = 1
          \<and> total_ordering (cost_calc (fst (snd
                (run s' 739342 739346 (\<lambda>_. Some 120) None (Some ''S1'') g')))) = 80)
   \<and> current_stock (process_order_arrivals
         (scenario_sim\<lparr>current_stock := 30, order_mgr := (order_mgr scenario_sim)
            \<lparr>pending_orders := [\<lparr>arrival_date = 739344, quantity = 200, status = ''pending''\<rparr>]\<rparr>\<rparr>)
         739344) = 230"
proof -
  let ?sa = "scenario_sim\<lparr>current_stock := 30, order_mgr := (order_mgr scenario_sim)
            \<lparr>pending_orders := [\<lparr>arrival_date = 739344, quantity = 200, status = ''pending''\<rparr>]\<rparr>\<rparr>"
  let ?om = "OrderManager_init scenario_supplier None"
  let ?sp = "scenario_sim\<lparr>order_mgr := (order_mgr scenario_sim)
               \<lparr>pending_orders := [\<lparr>arrival_date = 739344, quantity = 200, status = ''pending''\<rparr>]\<rparr>\<rparr>"
  let ?loop = "run_loop (\<lambda>_. Some 120) [739343, 739344, 739345] [] (?sp, generator 0)"
  let ?run = "run scenario_sim 739342 739346 (\<lambda>_. Some 120) None None (generator 0)"
  have h1: "fst (place_order ?om 739342 200 (generator 0)) =
              Inr (projr (fst (place_order ?om 739342 200 (generator 0))))"
    by (simp add: scenario_defs place_order_cases)
  have h2: "pending_orders (order_mgr (fst (?sp, generator 0))) \<noteq> []" by simp
  have e2: "current_stock (fst (snd ?loop)) = 0"
    by (simp add: scenario_defs engine_defs)
  have e3: "(case ?run of (Inl e, s', g') \<Rightarrow> False
      | (Inr res, s', g') \<Rightarrow> length (pending_orders (order_mgr s')) = 1 \<and> calls g' = 1)"
    by (simp add: scenario_defs engine_defs upto_rec1)
  then obtain res s' g' where run: "?run = (Inr res, s', g')"
    and len: "length (pending_orders (order_mgr s')) = 1" and calls: "calls g' = 1"
    by (cases ?run) (auto split: sum.splits)
  have e4: "(case ?run of (r1, s1, g1) \<Rightarrow>
      total_ordering (cost_calc s1) = 40 \<and> order_cost (cost_calc s1) = 40 \<and>
      total_ordering (cost_calc (fst (snd
        (run s1 739342 739346 (\<lambda>_. Some 120) None (Some ''S1'') g1)))) = 80)"
    by (simp add: scenario_defs engine_defs upto_rec1 override_supplier_def)
  with run have again: "total_ordering (cost_calc (fst (snd
        (run s' 739342 739346 (\<lambda>_. Some 120) None (Some ''S1'') g')))) =
      total_ordering (cost_calc s') + order_cost (cost_calc s')"
    by simp
  note inst2 = single_order_per_run [where s = ?sa and d = 739344 and ?s0.0 = s'
      and a = 739342 and b = 739346 and m = "\<lambda>_. Some 120" and h = None
      and f = "Some ''S1''" and g = g']
  from inst2 have c4: "current_stock (process_order_arrivals ?sa 739344) = 230"
    by (simp add: scenario_defs)
  from inst2 again have c5: "total_ordering (cost_calc (fst (snd
        (run s' 739342 739346 (\<lambda>_. Some 120) None (Some ''S1'') g')))) =
      total_ordering (cost_calc s') + order_cost (cost_calc s')"
    by (simp add: Let_def)
  have sup: "0.1 * of_int (MOQ (pd_supplier scenario_data)) * cost (pd_supplier scenario_data) = 40"
    by (simp add: scenario_defs)
  have r2: "round2 40 = 40" by (simp add: round2_def)
  note inst = single_order_per_run [where om = ?om and d = 739342 and q = 200
      and g = "generator 0" and om' = "projr (fst (place_order ?om 739342 200 (generator 0)))"
      and sg = "(?sp, generator 0)" and m = "\<lambda>_. Some 120" and ds = "[739343, 739344, 739345]"
      and acc = "[]" and pid = "''P1''" and pd = scenario_data and sups = "[scenario_supplier]"
      and hr = None and fs = None and a = 739342 and b = 739346 and h = None and f = None]
  from inst h1 have c1: "pending_orders (projr (fst (place_order ?om 739342 200 (generator 0)))) \<noteq> []"
    by blast
  from inst h2 have c2: "order_mgr (fst (snd ?loop)) = order_mgr (fst (?sp, generator 0))"
    "total_ordering (cost_calc (fst (snd ?loop))) = total_ordering (cost_calc (fst (?sp, generator 0)))"
    "snd (snd ?loop) = snd (?sp, generator 0)"
    by blast+
  from inst run [unfolded scenario_sim_def] len sup r2
  have c3: "total_ordering (cost_calc s') = 40 \<and> order_cost (cost_calc s') = 40
      \<and> total_ordering_cost (metrics res) = 40"
    by (simp add: Let_def)
  from c2 e2 have "case ?loop of (r, s', g') \<Rightarrow>
          pending_orders (order_mgr s') =
            [\<lparr>arrival_date = 739344, quantity = 200, status = ''pending''\<rparr>]
          \<and> total_ordering (cost_calc s') = 0 \<and> calls g' = 0 \<and> current_stock s' = 0"
    by (cases ?loop) (simp add: scenario_defs)
  with c1 c3 c4 c5 run len calls show ?thesis by simp
qed

end
